theory Spec2Isabelle
  imports Complex_Main "HOL-Library.Multiset"
begin

section \<open>JavaScript values\<close>

text \<open>
  The engine of \<^verbatim>\<open>PredictionEngine.js\<close> receives parsed JSON (the request body of the
  route in \<^verbatim>\<open>aiserver.js\<close>) and computes on it with JavaScript's dynamic coercions.
  Numbers are modelled as exact reals extended with \<open>NaN\<close> and the two infinities; the
  rounding error of IEEE doubles and the sign of zero are not modelled. Strings are
  lists of 8-bit characters, so white space and letter case are those of ASCII.
\<close>

datatype number = NaN | NInf | Fin real | PInf

datatype jsval =
    JUndefined
  | JNull
  | JBool bool
  | JNum number
  | JStr string
  | JArr "jsval list"
  | JObj "(string \<times> jsval) list"

datatype exn = TypeError

text \<open>
  What a call does: it returns a value, raises an exception to its caller, or never
  returns (a \<^verbatim>\<open>for\<close> loop whose bound is \<open>Infinity\<close>).
\<close>

datatype 'a outcome = Returns 'a | Throws exn | Diverges

subsection \<open>Arithmetic on numbers\<close>

fun num_neg :: "number \<Rightarrow> number" where
  "num_neg NaN = NaN"
| "num_neg NInf = PInf"
| "num_neg PInf = NInf"
| "num_neg (Fin a) = Fin (- a)"

fun num_add :: "number \<Rightarrow> number \<Rightarrow> number" where
  "num_add (Fin a) (Fin b) = Fin (a + b)"
| "num_add NaN _ = NaN"
| "num_add _ NaN = NaN"
| "num_add PInf NInf = NaN"
| "num_add NInf PInf = NaN"
| "num_add PInf _ = PInf"
| "num_add NInf _ = NInf"
| "num_add (Fin a) b = b"

definition num_sub :: "number \<Rightarrow> number \<Rightarrow> number" where
  "num_sub a b = num_add a (num_neg b)"

fun num_sign :: "number \<Rightarrow> int" where
  "num_sign NaN = 0"
| "num_sign NInf = - 1"
| "num_sign PInf = 1"
| "num_sign (Fin a) = (if a < 0 then - 1 else if a = 0 then 0 else 1)"

definition signed_inf :: "int \<Rightarrow> number" where
  "signed_inf s = (if s = 0 then NaN else if 0 < s then PInf else NInf)"

fun num_mul :: "number \<Rightarrow> number \<Rightarrow> number" where
  "num_mul (Fin a) (Fin b) = Fin (a * b)"
| "num_mul NaN _ = NaN"
| "num_mul _ NaN = NaN"
| "num_mul a b = signed_inf (num_sign a * num_sign b)"

fun num_div :: "number \<Rightarrow> number \<Rightarrow> number" where
  "num_div (Fin a) (Fin b) =
     (if b = 0 then signed_inf (num_sign (Fin a)) else Fin (a / b))"
| "num_div NaN _ = NaN"
| "num_div _ NaN = NaN"
| "num_div (Fin a) _ = Fin 0"
| "num_div a (Fin b) = signed_inf (num_sign a * (if b < 0 then - 1 else 1))"
| "num_div _ _ = NaN"

fun num_lt :: "number \<Rightarrow> number \<Rightarrow> bool" where
  "num_lt (Fin a) (Fin b) = (a < b)"
| "num_lt NaN _ = False"
| "num_lt _ NaN = False"
| "num_lt NInf b = (b \<noteq> NInf)"
| "num_lt a PInf = (a \<noteq> PInf)"
| "num_lt _ _ = False"

definition num_le :: "number \<Rightarrow> number \<Rightarrow> bool" where
  "num_le a b \<longleftrightarrow> num_lt a b \<or> (a = b \<and> a \<noteq> NaN)"

text \<open>\<^verbatim>\<open>Math.max\<close>, \<^verbatim>\<open>Math.min\<close>, \<^verbatim>\<open>Math.abs\<close> and \<^verbatim>\<open>Math.round\<close>.\<close>

definition math_max :: "number \<Rightarrow> number \<Rightarrow> number" where
  "math_max a b = (if a = NaN \<or> b = NaN then NaN else if num_lt a b then b else a)"

definition math_min :: "number \<Rightarrow> number \<Rightarrow> number" where
  "math_min a b = (if a = NaN \<or> b = NaN then NaN else if num_lt b a then b else a)"

fun math_abs :: "number \<Rightarrow> number" where
  "math_abs (Fin a) = Fin \<bar>a\<bar>"
| "math_abs NaN = NaN"
| "math_abs _ = PInf"

definition round_half_up :: "real \<Rightarrow> real" where
  "round_half_up x = of_int \<lfloor>x + 1 / 2\<rfloor>"

fun math_round :: "number \<Rightarrow> number" where
  "math_round (Fin a) = Fin (round_half_up a)"
| "math_round n = n"

text \<open>
  \<^verbatim>\<open>Number(x.toFixed(d))\<close> on a finite number: the nearest multiple of \<open>10^-d\<close>, a tie
  going away from zero (\<^verbatim>\<open>toFixed\<close> formats the absolute value and picks the larger
  candidate).
\<close>

definition to_fixed :: "nat \<Rightarrow> real \<Rightarrow> real" where
  "to_fixed d x = sgn x * (of_int \<lfloor>\<bar>x\<bar> * 10 ^ d + 1 / 2\<rfloor> / 10 ^ d)"

subsection \<open>Strings\<close>

definition is_space :: "char \<Rightarrow> bool" where
  "is_space c \<longleftrightarrow> (of_char c :: nat) \<in> {9, 10, 11, 12, 13, 32}"

definition trim :: "string \<Rightarrow> string" where
  "trim s = rev (dropWhile is_space (rev (dropWhile is_space s)))"

definition digit_of :: "nat \<Rightarrow> char \<Rightarrow> nat option" where
  "digit_of b c =
     (let n = (of_char c :: nat);
          d = (if 48 \<le> n \<and> n \<le> 57 then Some (n - 48)
               else if 97 \<le> n \<and> n \<le> 102 then Some (n - 87)
               else if 65 \<le> n \<and> n \<le> 70 then Some (n - 55)
               else None)
      in case d of None \<Rightarrow> None | Some v \<Rightarrow> if v < b then Some v else None)"

fun digits_of :: "nat \<Rightarrow> string \<Rightarrow> nat \<Rightarrow> nat option" where
  "digits_of b [] acc = Some acc"
| "digits_of b (c # cs) acc =
     (case digit_of b c of None \<Rightarrow> None | Some d \<Rightarrow> digits_of b cs (acc * b + d))"

definition natural :: "nat \<Rightarrow> string \<Rightarrow> nat option" where
  "natural b s = (if s = [] then None else digits_of b s 0)"

definition is_exp_mark :: "char \<Rightarrow> bool" where
  "is_exp_mark c \<longleftrightarrow> c = CHR ''e'' \<or> c = CHR ''E''"

definition exponent_part :: "string \<Rightarrow> int option" where
  "exponent_part s =
     (case s of
        [] \<Rightarrow> Some 0
      | _ # t \<Rightarrow>
          (case t of
             [] \<Rightarrow> None
           | c # u \<Rightarrow>
               if c = CHR ''-'' then map_option (\<lambda>n. - int n) (natural 10 u)
               else if c = CHR ''+'' then map_option int (natural 10 u)
               else map_option int (natural 10 t)))"

definition scale10 :: "real \<Rightarrow> int \<Rightarrow> real" where
  "scale10 x e = (if 0 \<le> e then x * 10 ^ nat e else x / 10 ^ nat (- e))"

definition unsigned_decimal :: "string \<Rightarrow> number" where
  "unsigned_decimal s =
     (if s = ''Infinity'' then PInf
      else
        let m = takeWhile (\<lambda>c. \<not> is_exp_mark c) s;
            ex = dropWhile (\<lambda>c. \<not> is_exp_mark c) s;
            ip = takeWhile (\<lambda>c. c \<noteq> CHR ''.'') m;
            fp = tl (dropWhile (\<lambda>c. c \<noteq> CHR ''.'') m)
        in if ip = [] \<and> fp = [] then NaN
           else case (digits_of 10 ip 0, digits_of 10 fp 0, exponent_part ex) of
                  (Some i, Some f, Some e) \<Rightarrow>
                    Fin (scale10 (real i + real f / 10 ^ length fp) e)
                | _ \<Rightarrow> NaN)"

definition radix_prefix :: "string \<Rightarrow> nat option" where
  "radix_prefix s =
     (case s of
        a # b # _ \<Rightarrow>
          if a \<noteq> CHR ''0'' then None
          else if b = CHR ''x'' \<or> b = CHR ''X'' then Some 16
          else if b = CHR ''o'' \<or> b = CHR ''O'' then Some 8
          else if b = CHR ''b'' \<or> b = CHR ''B'' then Some 2
          else None
      | _ \<Rightarrow> None)"

text \<open>
  \<^verbatim>\<open>Number(s)\<close> on a string: white space is trimmed, the empty string is 0, then a
  signed decimal literal, \<^verbatim>\<open>Infinity\<close>, or an unsigned hexadecimal, octal or binary
  integer; anything else is \<open>NaN\<close>.
\<close>

definition string_to_number :: "string \<Rightarrow> number" where
  "string_to_number s =
     (let t = trim s in
      if t = [] then Fin 0
      else case radix_prefix t of
             Some b \<Rightarrow> (case natural b (drop 2 t) of None \<Rightarrow> NaN | Some n \<Rightarrow> Fin (real n))
           | None \<Rightarrow>
               if hd t = CHR ''-'' then num_neg (unsigned_decimal (tl t))
               else if hd t = CHR ''+'' then unsigned_decimal (tl t)
               else unsigned_decimal t)"

fun split_on :: "char \<Rightarrow> string \<Rightarrow> string list" where
  "split_on c [] = [[]]"
| "split_on c (x # xs) =
     (if x = c then [] # split_on c xs
      else (case split_on c xs of p # ps \<Rightarrow> (x # p) # ps | [] \<Rightarrow> [[x]]))"

text \<open>\<^verbatim>\<open>split\<close> above; \<^verbatim>\<open>toLowerCase\<close> and \<^verbatim>\<open>includes\<close> below.\<close>

definition lower_char :: "char \<Rightarrow> char" where
  "lower_char c =
     (let n = (of_char c :: nat) in if 65 \<le> n \<and> n \<le> 90 then char_of (n + 32) else c)"

definition toLowerCase :: "string \<Rightarrow> string" where
  "toLowerCase s = map lower_char s"

fun starts_with :: "string \<Rightarrow> string \<Rightarrow> bool" where
  "starts_with s [] = True"
| "starts_with [] (p # ps) = False"
| "starts_with (c # cs) (p # ps) = (c = p \<and> starts_with cs ps)"

fun str_includes :: "string \<Rightarrow> string \<Rightarrow> bool" where
  "str_includes [] p = (p = [])"
| "str_includes (c # cs) p = (starts_with (c # cs) p \<or> str_includes cs p)"

fun join_comma :: "string list \<Rightarrow> string" where
  "join_comma [] = []"
| "join_comma [s] = s"
| "join_comma (s # t # ts) = s @ '','' @ join_comma (t # ts)"

subsection \<open>Coercions and operators\<close>

text \<open>Sequencing of calls: an exception or a divergence of the first ends the second.\<close>

fun and_then :: "'a outcome \<Rightarrow> ('a \<Rightarrow> 'b outcome) \<Rightarrow> 'b outcome" where
  "and_then (Returns a) f = f a"
| "and_then (Throws e) f = Throws e"
| "and_then Diverges f = Diverges"

text \<open>\<^verbatim>\<open>try { m } catch (error) { h }\<close>.\<close>

fun try_catch :: "'a outcome \<Rightarrow> 'a outcome \<Rightarrow> 'a outcome" where
  "try_catch (Returns a) h = Returns a"
| "try_catch (Throws e) h = h"
| "try_catch Diverges h = Diverges"

text \<open>\<^verbatim>\<open>ToBoolean\<close>: what \<^verbatim>\<open>||\<close>, \<^verbatim>\<open>&&\<close>, \<^verbatim>\<open>!\<close> and \<^verbatim>\<open>if\<close> test.\<close>

fun truthy :: "jsval \<Rightarrow> bool" where
  "truthy JUndefined = False"
| "truthy JNull = False"
| "truthy (JBool b) = b"
| "truthy (JNum n) = (n \<noteq> NaN \<and> n \<noteq> Fin 0)"
| "truthy (JStr s) = (s \<noteq> [])"
| "truthy (JArr xs) = True"
| "truthy (JObj kvs) = True"

definition js_or :: "jsval \<Rightarrow> jsval \<Rightarrow> jsval" where
  "js_or a b = (if truthy a then a else b)"

text \<open>
  The number that \<^verbatim>\<open>ToNumber\<close> yields when it does not raise (see \<open>unprintable\<close>
  below). An array converts through its string form (the elements joined by commas,
  \<^verbatim>\<open>null\<close> and \<^verbatim>\<open>undefined\<close> as empty): no element gives 0, one element gives the
  number of that element's string (a number element reads back as itself), more
  elements give \<open>NaN\<close>. A plain object gives \<open>NaN\<close>.
\<close>

fun number_of :: "jsval \<Rightarrow> number" where
  "number_of JUndefined = NaN"
| "number_of JNull = Fin 0"
| "number_of (JBool b) = Fin (if b then 1 else 0)"
| "number_of (JNum n) = n"
| "number_of (JStr s) = string_to_number s"
| "number_of (JObj kvs) = NaN"
| "number_of (JArr []) = Fin 0"
| "number_of (JArr [JUndefined]) = Fin 0"
| "number_of (JArr [JNull]) = Fin 0"
| "number_of (JArr [JBool b]) = NaN"
| "number_of (JArr [JNum n]) = n"
| "number_of (JArr [JStr s]) = string_to_number s"
| "number_of (JArr [JObj kvs]) = NaN"
| "number_of (JArr [JArr xs]) = number_of (JArr xs)"
| "number_of (JArr (x # y # zs)) = NaN"

text \<open>
  The string that \<^verbatim>\<open>ToString\<close> yields when it does not raise, given the runtime's
  decimal printing of a finite number.
\<close>

fun string_of :: "(real \<Rightarrow> string) \<Rightarrow> jsval \<Rightarrow> string" where
  "string_of pr JUndefined = ''undefined''"
| "string_of pr JNull = ''null''"
| "string_of pr (JBool b) = (if b then ''true'' else ''false'')"
| "string_of pr (JNum NaN) = ''NaN''"
| "string_of pr (JNum PInf) = ''Infinity''"
| "string_of pr (JNum NInf) = ''-Infinity''"
| "string_of pr (JNum (Fin a)) = pr a"
| "string_of pr (JStr s) = s"
| "string_of pr (JObj kvs) = ''[object Object]''"
| "string_of pr (JArr xs) =
     join_comma (map (\<lambda>x. if x = JNull \<or> x = JUndefined then [] else string_of pr x) xs)"

text \<open>Whether \<^verbatim>\<open>ToPrimitive\<close> yields a string: strings, arrays and plain objects.\<close>

fun stringy :: "jsval \<Rightarrow> bool" where
  "stringy (JStr s) = True"
| "stringy (JArr xs) = True"
| "stringy (JObj kvs) = True"
| "stringy _ = False"

text \<open>
  When \<^verbatim>\<open>ToPrimitive\<close> raises. Converting an object calls its \<^verbatim>\<open>valueOf\<close> and
  \<^verbatim>\<open>toString\<close>; the inherited \<^verbatim>\<open>valueOf\<close> returns the object itself, and
  \<^verbatim>\<open>Object.prototype.toString\<close> returns a string unless the object has a property
  \<^verbatim>\<open>toString\<close> of its own, which in parsed JSON is never a function: then no method
  yields a primitive and the conversion raises a \<^verbatim>\<open>TypeError\<close>. An array converts
  through \<^verbatim>\<open>join\<close>, which converts every element other than \<^verbatim>\<open>null\<close> and
  \<^verbatim>\<open>undefined\<close> to a string, so it raises when one of its elements does.
\<close>

fun unprintable :: "jsval \<Rightarrow> bool" where
  "unprintable (JObj kvs) = (map_of kvs ''toString'' \<noteq> None)"
| "unprintable (JArr xs) = (\<exists>x \<in> set xs. unprintable x)"
| "unprintable _ = False"

text \<open>\<^verbatim>\<open>ToNumber\<close> and \<^verbatim>\<open>ToString\<close>.\<close>

definition to_number :: "jsval \<Rightarrow> number outcome" where
  "to_number v = (if unprintable v then Throws TypeError else Returns (number_of v))"

definition to_string :: "(real \<Rightarrow> string) \<Rightarrow> jsval \<Rightarrow> string outcome" where
  "to_string pr v = (if unprintable v then Throws TypeError else Returns (string_of pr v))"

text \<open>
  The binary \<^verbatim>\<open>+\<close>: both operands are converted to primitives, and the result is a
  concatenation as soon as one of them is a string.
\<close>

definition js_add :: "(real \<Rightarrow> string) \<Rightarrow> jsval \<Rightarrow> jsval \<Rightarrow> jsval outcome" where
  "js_add pr a b =
     (if stringy a \<or> stringy b
      then and_then (to_string pr a) (\<lambda>x. and_then (to_string pr b) (\<lambda>y. Returns (JStr (x @ y))))
      else and_then (to_number a) (\<lambda>x. and_then (to_number b) (\<lambda>y. Returns (JNum (num_add x y)))))"

text \<open>\<^verbatim>\<open>a - b\<close>, and the comparisons \<^verbatim>\<open>v < c\<close> and \<^verbatim>\<open>v > c\<close> with a number literal.\<close>

definition js_sub :: "jsval \<Rightarrow> jsval \<Rightarrow> number outcome" where
  "js_sub a b = and_then (to_number a) (\<lambda>x. and_then (to_number b) (\<lambda>y. Returns (num_sub x y)))"

definition js_lt :: "jsval \<Rightarrow> real \<Rightarrow> bool outcome" where
  "js_lt v c = and_then (to_number v) (\<lambda>n. Returns (num_lt n (Fin c)))"

definition js_gt :: "jsval \<Rightarrow> real \<Rightarrow> bool outcome" where
  "js_gt v c = and_then (to_number v) (\<lambda>n. Returns (num_lt (Fin c) n))"

text \<open>
  Reading a property \<open>k\<close> of a value that is neither \<^verbatim>\<open>null\<close> nor \<^verbatim>\<open>undefined\<close>, for
  the field names this program reads (none of them is an index or \<^verbatim>\<open>length\<close>). An
  object is its list of bindings, the first binding of a key being its value.
\<close>

fun get_prop :: "jsval \<Rightarrow> string \<Rightarrow> jsval" where
  "get_prop (JObj kvs) k = (case map_of kvs k of None \<Rightarrow> JUndefined | Some v \<Rightarrow> v)"
| "get_prop _ k = JUndefined"

definition nullish :: "jsval \<Rightarrow> bool" where
  "nullish v \<longleftrightarrow> v = JNull \<or> v = JUndefined"

text \<open>
  \<^verbatim>\<open>Array.prototype.sort(cmp)\<close>: a stable sort, an element staying before a later one
  unless the comparator is positive on the pair; modelled by stable insertion. (For a
  comparator that is not an ordering of the elements the result depends on the
  runtime; on validated visits \<open>compareGA\<close> below is an ordering.)
\<close>

fun insert_sorted :: "('a \<Rightarrow> 'a \<Rightarrow> number) \<Rightarrow> 'a \<Rightarrow> 'a list \<Rightarrow> 'a list" where
  "insert_sorted cmp x [] = [x]"
| "insert_sorted cmp x (y # ys) =
     (if num_lt (Fin 0) (cmp x y) then y # insert_sorted cmp x ys else x # y # ys)"

definition array_sort :: "('a \<Rightarrow> 'a \<Rightarrow> number) \<Rightarrow> 'a list \<Rightarrow> 'a list" where
  "array_sort cmp xs = foldr (insert_sorted cmp) xs []"

text \<open>Printing an integer in decimal, as a template literal does.\<close>

fun show_nat :: "nat \<Rightarrow> string" where
  "show_nat n =
     (if n < 10 then [char_of (48 + n)] else show_nat (n div 10) @ [char_of (48 + n mod 10)])"

definition show_int :: "int \<Rightarrow> string" where
  "show_int k = (if k < 0 then CHR ''-'' # show_nat (nat (- k)) else show_nat (nat k))"

section \<open>The prediction engine\<close>

subsection \<open>Data\<close>

text \<open>A normalized visit: the object literal built by \<^verbatim>\<open>validateVisits\<close>.\<close>

record visit =
  GESTATIONAL_AGE_WEEKS :: jsval
  MATERNAL_WEIGHT :: jsval
  FUNDAL_HEIGHT :: jsval
  HEMOGLOBIN_LEVEL :: jsval
  BLOOD_PRESSURE :: jsval
  FETAL_HEART_RATE :: jsval
  COMPLICATIONS :: jsval
  VISIT_DATE :: jsval

text \<open>
  The instance state of \<^verbatim>\<open>class PredictionEngine\<close>. After the constructor,
  \<open>patient\<close> is truthy (\<^verbatim>\<open>patient || {}\<close>), so reading its properties never raises.
\<close>

record engine =
  visits :: jsval
  patient :: jsval
  validatedVisits :: "visit list"

record bloodPressure =
  systolic :: number
  diastolic :: number

record riskScores =
  anemia :: real
  hypertension :: real
  growthRestriction :: real
  pretermRisk :: real
  maternalAgeRisk :: real
  bmiRisk :: real

record deliveryType =
  FullTerm :: real
  Premature :: real
  MortalityRisk :: real

record deliveryMode =
  Normal :: real
  CSection :: real

record expectedDelivery =
  expectedGA :: real
  expectedWeight :: real

text \<open>One entry \<^verbatim>\<open>{week, value}\<close> of a projected series.\<close>

record point =
  week :: jsval
  pvalue :: number

text \<open>The six series of \<^verbatim>\<open>progression\<close> (\<open>s_weight\<close> is the series \<^verbatim>\<open>weight\<close>, and so on).\<close>

record progression =
  s_weight :: "point list"
  s_fundal :: "point list"
  s_hb :: "point list"
  s_systolic :: "point list"
  s_diastolic :: "point list"
  s_fetal_hr :: "point list"

text \<open>\<^verbatim>\<open>baseVitals\<close> (\<open>b_weight\<close> is its field \<^verbatim>\<open>weight\<close>, and so on).\<close>

record baseVitals =
  b_weight :: jsval
  b_fundal :: jsval
  b_hb :: jsval
  b_fhr :: jsval
  b_bp :: bloodPressure

record metadata =
  currentGestationalAge :: "jsval option"
  weeksProjected :: "number option"
  visitCount :: "nat option"
  generatedAt :: string
  source :: string

text \<open>
  The result object. \<open>progression = None\<close> and \<open>riskScores = None\<close> stand for the empty
  object \<^verbatim>\<open>{}\<close>; \<open>isFallback = False\<close> for the absent flag.
\<close>

record prediction =
  deliveryType :: deliveryType
  deliveryMode :: deliveryMode
  progression :: "progression option"
  summary :: string
  expectedGestationalAge :: real
  expectedBirthWeight :: real
  riskScores :: "riskScores option"
  isFallback :: bool
  metadata :: metadata

text \<open>
  What one call takes from the runtime: the successive results of \<^verbatim>\<open>Math.random()\<close>
  (each in \<open>[0, 1)\<close>), \<^verbatim>\<open>Math.sin\<close>, the decimal printing of finite numbers, and the
  time stamp \<^verbatim>\<open>new Date().toISOString()\<close>.
\<close>

record env =
  rand :: "nat \<Rightarrow> real"
  sine :: "real \<Rightarrow> real"
  num_str :: "real \<Rightarrow> string"
  now :: string

subsection \<open>validateVisits and the constructor\<close>

definition normalize :: "jsval \<Rightarrow> visit" where
  "normalize v =
     \<lparr> GESTATIONAL_AGE_WEEKS = js_or (get_prop v ''GESTATIONAL_AGE_WEEKS'') JNull,
       MATERNAL_WEIGHT = js_or (get_prop v ''MATERNAL_WEIGHT'') JNull,
       FUNDAL_HEIGHT = js_or (get_prop v ''FUNDAL_HEIGHT'') JNull,
       HEMOGLOBIN_LEVEL = js_or (get_prop v ''HEMOGLOBIN_LEVEL'') JNull,
       BLOOD_PRESSURE = js_or (get_prop v ''BLOOD_PRESSURE'') JNull,
       FETAL_HEART_RATE = js_or (get_prop v ''FETAL_HEART_RATE'') JNull,
       COMPLICATIONS = js_or (get_prop v ''COMPLICATIONS'') JNull,
       VISIT_DATE = js_or (get_prop v ''VISIT_DATE'') JNull \<rparr>"

text \<open>The \<^verbatim>\<open>map\<close>: reading a property of a \<^verbatim>\<open>null\<close> element raises.\<close>

fun map_visits :: "jsval list \<Rightarrow> visit list outcome" where
  "map_visits [] = Returns []"
| "map_visits (v # vs) =
     (if nullish v then Throws TypeError
      else and_then (map_visits vs) (\<lambda>ns. Returns (normalize v # ns)))"

text \<open>
  The predicate of the \<^verbatim>\<open>filter\<close>,
  \<^verbatim>\<open>visit.GESTATIONAL_AGE_WEEKS && visit.GESTATIONAL_AGE_WEEKS > 0\<close>, and the \<^verbatim>\<open>filter\<close>.
\<close>

definition keep_visit :: "visit \<Rightarrow> bool outcome" where
  "keep_visit v =
     (if truthy (GESTATIONAL_AGE_WEEKS v) then js_gt (GESTATIONAL_AGE_WEEKS v) 0
      else Returns False)"

fun filter_visits :: "visit list \<Rightarrow> visit list outcome" where
  "filter_visits [] = Returns []"
| "filter_visits (v # vs) =
     and_then (keep_visit v) (\<lambda>k.
       and_then (filter_visits vs) (\<lambda>r. Returns (if k then v # r else r)))"

definition validateVisits :: "jsval \<Rightarrow> visit list outcome" where
  "validateVisits vs =
     (if \<not> truthy vs then Returns []
      else case vs of
             JArr xs \<Rightarrow> and_then (map_visits xs) filter_visits
           | _ \<Rightarrow> Returns [])"

definition PredictionEngine :: "jsval \<Rightarrow> jsval \<Rightarrow> engine outcome" where
  "PredictionEngine vs p =
     and_then (validateVisits (js_or vs (JArr [])))
       (\<lambda>vv. Returns \<lparr> visits = js_or vs (JArr []), patient = js_or p (JObj []),
                        validatedVisits = vv \<rparr>)"

subsection \<open>Helpers\<close>

definition roundProbability :: "real \<Rightarrow> real" where
  "roundProbability v = round_half_up (v * 100) / 100"

text \<open>
  \<^verbatim>\<open>roundValue(value, decimals)\<close>: only a number has \<^verbatim>\<open>toFixed\<close>; on anything else the
  call raises a \<^verbatim>\<open>TypeError\<close>.
\<close>

definition roundValue :: "jsval \<Rightarrow> nat \<Rightarrow> number outcome" where
  "roundValue v d =
     (case v of
        JNum n \<Rightarrow> Returns (case n of Fin x \<Rightarrow> Fin (to_fixed d x) | _ \<Rightarrow> n)
      | _ \<Rightarrow> Throws TypeError)"

text \<open>\<^verbatim>\<open>n || d\<close> for a number \<open>n\<close>.\<close>

definition number_or :: "number \<Rightarrow> real \<Rightarrow> number" where
  "number_or n d = (if n = NaN \<or> n = Fin 0 then Fin d else n)"

definition bp_default :: bloodPressure where
  "bp_default = \<lparr> systolic = Fin 115, diastolic = Fin 70 \<rparr>"

text \<open>The body of the \<^verbatim>\<open>try\<close> block: \<^verbatim>\<open>split\<close> exists on strings only.\<close>

definition parse_parts :: "jsval \<Rightarrow> bloodPressure outcome" where
  "parse_parts bpString =
     (case bpString of
        JStr s \<Rightarrow>
          (case map string_to_number (split_on CHR ''/'' s) of
             [] \<Rightarrow> Returns bp_default
           | p0 # ps \<Rightarrow>
               Returns \<lparr> systolic = number_or p0 115,
                         diastolic = (case ps of [] \<Rightarrow> Fin 70 | p1 # _ \<Rightarrow> number_or p1 70) \<rparr>)
      | _ \<Rightarrow> Throws TypeError)"

definition parseBloodPressure :: "jsval \<Rightarrow> bloodPressure outcome" where
  "parseBloodPressure bpString =
     (if \<not> truthy bpString then Returns bp_default
      else try_catch (parse_parts bpString) (Returns bp_default))"

text \<open>
  \<^verbatim>\<open>hasPretermHistory\<close>, as the truth value its caller tests. The optional chaining
  \<^verbatim>\<open>?.\<close> stops on \<^verbatim>\<open>null\<close> and \<^verbatim>\<open>undefined\<close> only: any other value that is not a string
  has no \<^verbatim>\<open>toLowerCase\<close>, and calling it raises.
\<close>

definition hasPretermHistory :: "engine \<Rightarrow> bool outcome" where
  "hasPretermHistory e =
     (let parity = get_prop (patient e) ''PARITY'';
          history = get_prop (patient e) ''MEDICAL_HISTORY''
      in and_then (js_gt parity 0) (\<lambda>positive.
           if positive \<or> parity = JStr ''1''
           then (case history of
                   JUndefined \<Rightarrow> Returns False
                 | JNull \<Rightarrow> Returns False
                 | JStr s \<Rightarrow> Returns (str_includes (toLowerCase s) ''preterm'')
                 | _ \<Rightarrow> Throws TypeError)
           else Returns False))"

definition visit_field :: "string \<Rightarrow> visit \<Rightarrow> jsval" where
  "visit_field k v =
     (if k = ''GESTATIONAL_AGE_WEEKS'' then GESTATIONAL_AGE_WEEKS v
      else if k = ''MATERNAL_WEIGHT'' then MATERNAL_WEIGHT v
      else if k = ''FUNDAL_HEIGHT'' then FUNDAL_HEIGHT v
      else if k = ''HEMOGLOBIN_LEVEL'' then HEMOGLOBIN_LEVEL v
      else if k = ''BLOOD_PRESSURE'' then BLOOD_PRESSURE v
      else if k = ''FETAL_HEART_RATE'' then FETAL_HEART_RATE v
      else if k = ''COMPLICATIONS'' then COMPLICATIONS v
      else if k = ''VISIT_DATE'' then VISIT_DATE v
      else JUndefined)"

text \<open>
  The comparator \<^verbatim>\<open>(a, b) => a.GESTATIONAL_AGE_WEEKS - b.GESTATIONAL_AGE_WEEKS\<close>: its
  value when the two conversions do not raise.
\<close>

definition compareGA :: "visit \<Rightarrow> visit \<Rightarrow> number" where
  "compareGA a b =
     num_sub (number_of (GESTATIONAL_AGE_WEEKS a)) (number_of (GESTATIONAL_AGE_WEEKS b))"

text \<open>
  Sorting visits with this comparator. On two or more visits every visit takes part in
  a comparison, so the sort raises as soon as the gestational age of one of them cannot
  be converted; on fewer the comparator is never called.
\<close>

definition sort_visits :: "visit list \<Rightarrow> visit list outcome" where
  "sort_visits vs =
     (if 2 \<le> length vs \<and> (\<exists>v \<in> set vs. unprintable (GESTATIONAL_AGE_WEEKS v))
      then Throws TypeError
      else Returns (array_sort compareGA vs))"

definition calculateTrend :: "engine \<Rightarrow> string \<Rightarrow> number outcome" where
  "calculateTrend e field =
     (if length (validatedVisits e) < 2 then Returns (Fin 0)
      else
        and_then (sort_visits (validatedVisits e)) (\<lambda>sortedVisits.
          let first = visit_field field (hd sortedVisits);
              lastv = visit_field field (last sortedVisits)
          in if \<not> truthy first \<or> \<not> truthy lastv then Returns (Fin 0)
             else
               and_then (js_sub (GESTATIONAL_AGE_WEEKS (last sortedVisits))
                                (GESTATIONAL_AGE_WEEKS (hd sortedVisits))) (\<lambda>weekDiff.
                 if num_lt (Fin 0) weekDiff
                 then and_then (js_sub lastv first) (\<lambda>d. Returns (num_div d weekDiff))
                 else Returns (Fin 0))))"

subsection \<open>Risk scores\<close>

definition anemiaScore :: "visit \<Rightarrow> real outcome" where
  "anemiaScore latestVisit =
     (let h = HEMOGLOBIN_LEVEL latestVisit in
      if truthy h then
        and_then (js_lt h 10) (\<lambda>severe.
          if severe then Returns 0.8
          else and_then (js_lt h 11) (\<lambda>mild. Returns (if mild then 0.4 else 0.1)))
      else Returns 0)"

definition hypertensionScore :: "visit \<Rightarrow> real outcome" where
  "hypertensionScore latestVisit =
     (if truthy (BLOOD_PRESSURE latestVisit) then
        and_then (parseBloodPressure (BLOOD_PRESSURE latestVisit))
          (\<lambda>bp. Returns
             (if num_le (Fin 140) (systolic bp) \<or> num_le (Fin 90) (diastolic bp) then 0.9
              else if num_le (Fin 130) (systolic bp) \<or> num_le (Fin 85) (diastolic bp) then 0.6
              else 0.1))
      else Returns 0)"

definition growthScore :: "visit \<Rightarrow> real outcome" where
  "growthScore latestVisit =
     (if truthy (FUNDAL_HEIGHT latestVisit) \<and> truthy (GESTATIONAL_AGE_WEEKS latestVisit) then
        and_then (js_sub (FUNDAL_HEIGHT latestVisit) (GESTATIONAL_AGE_WEEKS latestVisit))
          (\<lambda>d. let diff = math_abs d
                in Returns (if num_lt (Fin 4) diff then 0.7
                            else if num_lt (Fin 2) diff then 0.3
                            else 0.1))
      else Returns 0)"

definition pretermScore :: "engine \<Rightarrow> visit \<Rightarrow> real outcome" where
  "pretermScore e latestVisit =
     (let currentGA = GESTATIONAL_AGE_WEEKS latestVisit;
          otherwise = and_then (js_lt currentGA 32) (\<lambda>early. Returns (if early then 0.3 else 0.1))
      in and_then (js_lt currentGA 37) (\<lambda>before37.
           if before37
           then and_then (hasPretermHistory e) (\<lambda>h. if h then Returns 0.6 else otherwise)
           else otherwise))"

definition maternalAgeScore :: "engine \<Rightarrow> real outcome" where
  "maternalAgeScore e =
     (let age = js_or (get_prop (patient e) ''AGE'') (JNum (Fin 25))
      in and_then (js_lt age 18) (\<lambda>young.
           if young then Returns 0.4
           else and_then (js_gt age 35) (\<lambda>old. Returns (if old then 0.4 else 0.1))))"

definition bmiScore :: "engine \<Rightarrow> real outcome" where
  "bmiScore e =
     (let bmi = get_prop (patient e) ''BMI_VALUE'' in
      if truthy bmi then
        and_then (js_lt bmi 18.5) (\<lambda>low.
          if low then Returns 0.5
          else and_then (js_gt bmi 30) (\<lambda>high.
            if high then Returns 0.5
            else and_then (js_gt bmi 25) (\<lambda>over. Returns (if over then 0.3 else 0.1))))
      else Returns 0)"

text \<open>
  \<^verbatim>\<open>calculateRiskScores\<close> reads the last element of \<open>validatedVisits\<close>; on an empty
  array that element is \<^verbatim>\<open>undefined\<close> and reading its field raises.
\<close>

definition calculateRiskScores :: "engine \<Rightarrow> riskScores outcome" where
  "calculateRiskScores e =
     (if validatedVisits e = [] then Throws TypeError
      else
        let latestVisit = last (validatedVisits e) in
        and_then (anemiaScore latestVisit) (\<lambda>a.
        and_then (hypertensionScore latestVisit) (\<lambda>h.
        and_then (growthScore latestVisit) (\<lambda>g.
        and_then (pretermScore e latestVisit) (\<lambda>p.
        and_then (maternalAgeScore e) (\<lambda>m.
        and_then (bmiScore e) (\<lambda>b.
          Returns \<lparr> anemia = a, hypertension = h, growthRestriction = g,
                    pretermRisk = p, maternalAgeRisk = m, bmiRisk = b \<rparr>)))))))"

text \<open>\<^verbatim>\<open>Object.entries(riskScores)\<close>, in the order the keys were created.\<close>

definition entries :: "riskScores \<Rightarrow> (string \<times> real) list" where
  "entries rs =
     [(''anemia'', anemia rs), (''hypertension'', hypertension rs),
      (''growthRestriction'', growthRestriction rs), (''pretermRisk'', pretermRisk rs),
      (''maternalAgeRisk'', maternalAgeRisk rs), (''bmiRisk'', bmiRisk rs)]"

subsection \<open>Delivery probabilities and expected delivery\<close>

definition calculateDeliveryTypeProbabilities :: "riskScores \<Rightarrow> deliveryType" where
  "calculateDeliveryTypeProbabilities rs =
     (let totalRisk = foldl (+) 0 (map snd (entries rs)) / real (length (entries rs));
          fullTerm = max 0.4 (0.80 - totalRisk * 0.3);
          premature = min 0.4 (0.15 + totalRisk * 0.2);
          mortalityRisk = min 0.2 (0.05 + totalRisk * 0.1);
          total = fullTerm + premature + mortalityRisk
      in \<lparr> FullTerm = roundProbability (fullTerm / total),
            Premature = roundProbability (premature / total),
            MortalityRisk = roundProbability (mortalityRisk / total) \<rparr>)"

definition calculateDeliveryModeProbabilities :: "engine \<Rightarrow> riskScores \<Rightarrow> deliveryMode" where
  "calculateDeliveryModeProbabilities e rs =
     (let parity = get_prop (patient e) ''PARITY'';
          cSectionRisk = min 0.7
            (hypertension rs * 0.4 + growthRestriction rs * 0.3 + bmiRisk rs * 0.2 +
             (if parity = JNum (Fin 0) \<or> parity = JStr ''0'' then 0.1 else 0))
      in \<lparr> Normal = roundProbability (1 - cSectionRisk),
            CSection = roundProbability cSectionRisk \<rparr>)"

text \<open>
  \<^verbatim>\<open>calculateExpectedDelivery\<close>; its \<^verbatim>\<open>roundValue\<close> calls are on finite numbers, where
  they are \<open>to_fixed 1\<close>.
\<close>

definition calculateExpectedDelivery :: "riskScores \<Rightarrow> deliveryType \<Rightarrow> expectedDelivery" where
  "calculateExpectedDelivery rs dt =
     (let ga0 = (39.2 :: real);
          w0 = (3.3 :: real);
          ga1 = (if Premature dt > 0.3 then 36.5 else if Premature dt > 0.15 then 38.0 else ga0);
          w1 = (if growthRestriction rs > 0.5 then w0 - 0.5 else w0);
          w2 = (if hypertension rs > 0.5 then w1 - 0.3 else w1);
          w3 = (if anemia rs > 0.5 then w2 - 0.2 else w2);
          w4 = (if ga1 < 37.5 then w3 - 0.4 else w3);
          ga2 = min 40.0 (max 35.0 ga1);
          w5 = min 4.0 (max 2.5 w4)
      in \<lparr> expectedGA = to_fixed 1 ga2, expectedWeight = to_fixed 1 w5 \<rparr>)"

subsection \<open>Summary\<close>

text \<open>\<^verbatim>\<open>Object.entries(riskScores).reduce((a, b) => a[1] > b[1] ? a : b)[0]\<close>.\<close>

definition pick :: "string \<times> real \<Rightarrow> string \<times> real \<Rightarrow> string \<times> real" where
  "pick a b = (if snd a > snd b then a else b)"

definition primaryRisk :: "riskScores \<Rightarrow> string" where
  "primaryRisk rs = fst (foldl pick (hd (entries rs)) (tl (entries rs)))"

definition formatRiskName :: "string \<Rightarrow> string" where
  "formatRiskName riskKey =
     (case map_of
        [(''anemia'', ''anemia''), (''hypertension'', ''hypertension''),
         (''growthRestriction'', ''fetal growth restriction''),
         (''pretermRisk'', ''preterm delivery''), (''maternalAgeRisk'', ''maternal age''),
         (''bmiRisk'', ''BMI-related'')] riskKey of
        Some n \<Rightarrow> n
      | None \<Rightarrow> riskKey)"

definition generateSummary :: "riskScores \<Rightarrow> deliveryType \<Rightarrow> deliveryMode \<Rightarrow> string" where
  "generateSummary rs dt dm =
     (let primary = primaryRisk rs;
          score = (case map_of (entries rs) primary of Some v \<Rightarrow> v | None \<Rightarrow> 0);
          fullTermPercent = show_int \<lfloor>FullTerm dt * 100 + 1 / 2\<rfloor>;
          prematurePercent = show_int \<lfloor>Premature dt * 100 + 1 / 2\<rfloor>
      in if score > 0.7 then
           ''Elevated '' @ formatRiskName primary @ '' risk requires close monitoring. '' @
           prematurePercent @
           ''% premature delivery risk. Consider specialist consultation.''
         else if score > 0.4 then
           ''Moderate '' @ formatRiskName primary @ '' risk noted. '' @ fullTermPercent @
           ''% chance of full-term delivery with increased monitoring recommended.''
         else
           ''Patient shows stable progression with '' @ fullTermPercent @
           ''% likelihood of full-term normal delivery. Continue routine antenatal monitoring.'')"

subsection \<open>Progression\<close>

definition no_series :: progression where
  "no_series = \<lparr> s_weight = [], s_fundal = [], s_hb = [], s_systolic = [], s_diastolic = [],
                 s_fetal_hr = [] \<rparr>"

text \<open>
  One turn \<open>i\<close> of the loop of \<^verbatim>\<open>generateProgressionData\<close>. The turn draws four random
  numbers, in the order fundal, systolic, diastolic, fetal heart rate.
\<close>

definition projectWeek ::
  "env \<Rightarrow> jsval \<Rightarrow> baseVitals \<Rightarrow> nat \<Rightarrow> progression \<Rightarrow> progression outcome" where
  "projectWeek env startWeek base i p =
     (let r = (\<lambda>j. rand env (4 * (i - 1) + j)) in
      and_then (js_add (num_str env) startWeek (JNum (Fin (real i)))) (\<lambda>wk.
      and_then (js_add (num_str env) (b_weight base) (JNum (Fin (real i * 0.35)))) (\<lambda>w0.
      and_then (roundValue w0 1) (\<lambda>w.
      and_then (js_add (num_str env) wk (JNum (Fin (r 0 * 2 - 1)))) (\<lambda>f0.
      and_then (roundValue f0 1) (\<lambda>f.
      and_then (js_sub (b_hb base) (JNum (Fin (real i * 0.05)))) (\<lambda>h0.
      and_then (roundValue (JNum (math_max (Fin 10.5) h0)) 1) (\<lambda>h.
      and_then (js_add (num_str env) (b_fhr base) (JNum (Fin (sine env (real i / 3) * 2)))) (\<lambda>x0.
      and_then (js_add (num_str env) x0 (JNum (Fin (r 3 * 3 - 1.5)))) (\<lambda>fhr0.
      and_then (to_number fhr0) (\<lambda>x1.
        let fhr1 = math_min (Fin 160) (math_max (Fin 120) x1) in
        Returns
          \<lparr> s_weight = s_weight p @ [\<lparr> week = wk, pvalue = w \<rparr>],
            s_fundal = s_fundal p @ [\<lparr> week = wk, pvalue = f \<rparr>],
            s_hb = s_hb p @ [\<lparr> week = wk, pvalue = h \<rparr>],
            s_systolic = s_systolic p @
              [\<lparr> week = wk,
                 pvalue = math_round (num_add (num_add (systolic (b_bp base))
                                                 (Fin (real i * 0.25))) (Fin (r 1 * 2 - 1))) \<rparr>],
            s_diastolic = s_diastolic p @
              [\<lparr> week = wk,
                 pvalue = math_round (num_add (num_add (diastolic (b_bp base))
                                                 (Fin (real i * 0.15))) (Fin (r 2 * 2 - 1))) \<rparr>],
            s_fetal_hr = s_fetal_hr p @ [\<lparr> week = wk, pvalue = math_round fhr1 \<rparr>] \<rparr>)))))))))))"

text \<open>The turns \<open>i, i + 1, \<dots>\<close>, \<open>n\<close> of them.\<close>

fun project_loop ::
  "env \<Rightarrow> jsval \<Rightarrow> baseVitals \<Rightarrow> nat \<Rightarrow> nat \<Rightarrow> progression \<Rightarrow> progression outcome" where
  "project_loop env startWeek base 0 i p = Returns p"
| "project_loop env startWeek base (Suc n) i p =
     and_then (projectWeek env startWeek base i p) (project_loop env startWeek base n (Suc i))"

text \<open>
  \<^verbatim>\<open>for (let i = 1; i <= weeksToProject; i++)\<close>: \<open>\<lfloor>w\<rfloor>\<close> turns for a finite bound
  \<open>w\<close>, none for \<open>NaN\<close> or \<open>-Infinity\<close>. With the bound \<open>Infinity\<close> the loop has no last
  turn: it raises if its first turn does (whether a turn raises does not depend on
  \<open>i\<close>) and otherwise never returns.
\<close>

definition generateProgressionData ::
  "env \<Rightarrow> jsval \<Rightarrow> number \<Rightarrow> baseVitals \<Rightarrow> progression outcome" where
  "generateProgressionData env startWeek weeksToProject base =
     (case weeksToProject of
        Fin w \<Rightarrow> project_loop env startWeek base (nat \<lfloor>w\<rfloor>) 1 no_series
      | PInf \<Rightarrow>
          (case projectWeek env startWeek base 1 no_series of
             Throws x \<Rightarrow> Throws x
           | _ \<Rightarrow> Diverges)
      | _ \<Rightarrow> Returns no_series)"

text \<open>
  \<^verbatim>\<open>p.value += (p.week - currentGA) * (trend * factor)\<close> on every point of a series. A
  series has a point only when a turn of the loop has computed \<^verbatim>\<open>startWeek + i\<close>, which
  has converted \<open>currentGA\<close> already; the week of a point is a number or a string. So
  the two conversions here do not raise.
\<close>

definition adjust :: "jsval \<Rightarrow> number \<Rightarrow> real \<Rightarrow> point \<Rightarrow> point" where
  "adjust currentGA trend factor p =
     p\<lparr> pvalue := num_add (pvalue p)
                    (num_mul (num_sub (number_of (week p)) (number_of currentGA))
                             (num_mul trend (Fin factor))) \<rparr>"

definition generateProgression :: "env \<Rightarrow> engine \<Rightarrow> jsval \<Rightarrow> number \<Rightarrow> progression outcome" where
  "generateProgression env e currentGA weeksToProject =
     (if validatedVisits e = [] then Throws TypeError
      else
        let latest = last (validatedVisits e) in
        and_then (parseBloodPressure (BLOOD_PRESSURE latest)) (\<lambda>bp.
          let base = \<lparr> b_weight = js_or (MATERNAL_WEIGHT latest) (JNum (Fin 60)),
                       b_fundal = js_or (FUNDAL_HEIGHT latest) currentGA,
                       b_hb = js_or (HEMOGLOBIN_LEVEL latest) (JNum (Fin 11.5)),
                       b_fhr = js_or (FETAL_HEART_RATE latest) (JNum (Fin 145)),
                       b_bp = bp \<rparr>
          in and_then (calculateTrend e ''MATERNAL_WEIGHT'') (\<lambda>weightTrend.
             and_then (calculateTrend e ''HEMOGLOBIN_LEVEL'') (\<lambda>hbTrend.
             and_then (generateProgressionData env currentGA weeksToProject base) (\<lambda>pr.
               Returns (pr\<lparr> s_weight := map (adjust currentGA weightTrend 0.1) (s_weight pr),
                            s_hb := map (adjust currentGA hbTrend 0.02) (s_hb pr) \<rparr>))))))"

subsection \<open>The fallback and generatePrediction\<close>

definition fallback_summary :: string where
  "fallback_summary =
     ''Using standard pregnancy progression model - insufficient patient data for personalized prediction.''"

definition getFallbackPrediction :: "env \<Rightarrow> bool \<Rightarrow> prediction outcome" where
  "getFallbackPrediction env atTerm =
     (let defaultGA = JNum (Fin 12);
          weeksToProject = (if atTerm then Fin 0 else num_sub (Fin 40) (Fin 12));
          base = \<lparr> b_weight = JNum (Fin 60), b_fundal = JNum (Fin 12), b_hb = JNum (Fin 11.5),
                   b_fhr = JNum (Fin 145), b_bp = \<lparr> systolic = Fin 115, diastolic = Fin 70 \<rparr> \<rparr>
      in and_then
           (if atTerm then Returns None
            else and_then (generateProgressionData env defaultGA weeksToProject base)
                   (\<lambda>pr. Returns (Some pr)))
           (\<lambda>pg. Returns
              \<lparr> deliveryType = \<lparr> FullTerm = 0.80, Premature = 0.15, MortalityRisk = 0.05 \<rparr>,
                deliveryMode = \<lparr> Normal = 0.70, CSection = 0.30 \<rparr>,
                progression = pg,
                summary = fallback_summary,
                expectedGestationalAge = 39.0,
                expectedBirthWeight = 3.2,
                riskScores = None,
                isFallback = True,
                metadata = \<lparr> currentGestationalAge = None, weeksProjected = None,
                             visitCount = None, generatedAt = now env,
                             source = ''fallback-model'' \<rparr> \<rparr>))"

text \<open>
  \<^verbatim>\<open>generatePrediction\<close> sorts \<open>validatedVisits\<close> in place, so it returns the new
  instance state beside its outcome. The sort works on a copy of the elements and
  writes them back when it is done, so a sort that raises leaves the array as it was.
\<close>

definition generatePrediction :: "env \<Rightarrow> engine \<Rightarrow> prediction outcome \<times> engine" where
  "generatePrediction env e =
     (if length (validatedVisits e) = 0 then (getFallbackPrediction env False, e)
      else
        case sort_visits (validatedVisits e) of
          Throws x \<Rightarrow> (Throws x, e)
        | Diverges \<Rightarrow> (Diverges, e)
        | Returns sortedVisits \<Rightarrow>
            let e' = e\<lparr> validatedVisits := sortedVisits \<rparr>;
                latestVisit = last (validatedVisits e');
                currentGA = GESTATIONAL_AGE_WEEKS latestVisit
            in
            (and_then (js_sub (JNum (Fin 40)) currentGA) (\<lambda>d.
               let weeksToProject = math_max (Fin 0) d in
               if num_le weeksToProject (Fin 0) then getFallbackPrediction env True
               else
                 and_then (calculateRiskScores e') (\<lambda>rs.
                   let dt = calculateDeliveryTypeProbabilities rs;
                       dm = calculateDeliveryModeProbabilities e' rs;
                       ed = calculateExpectedDelivery rs dt
                   in and_then (generateProgression env e' currentGA weeksToProject) (\<lambda>pg.
                        Returns
                          \<lparr> deliveryType = dt,
                            deliveryMode = dm,
                            progression = Some pg,
                            summary = generateSummary rs dt dm,
                            expectedGestationalAge = expectedGA ed,
                            expectedBirthWeight = expectedWeight ed,
                            riskScores = Some rs,
                            isFallback = False,
                            metadata = \<lparr> currentGestationalAge = Some currentGA,
                                         weeksProjected = Some weeksToProject,
                                         visitCount = Some (length (validatedVisits e')),
                                         generatedAt = now env,
                                         source = ''rule-based-engine'' \<rparr> \<rparr>))), e'))"

text \<open>
  The use of the engine by the route \<^verbatim>\<open>/ongoing-progression\<close>:
  \<^verbatim>\<open>new PredictionEngine(visits, patient).generatePrediction()\<close>.
\<close>

definition predict :: "env \<Rightarrow> jsval \<Rightarrow> jsval \<Rightarrow> prediction outcome" where
  "predict env vs p =
     and_then (PredictionEngine vs p) (\<lambda>e. fst (generatePrediction env e))"

subsection \<open>A sample runtime\<close>

text \<open>
  A concrete runtime for evaluating the engine: every \<^verbatim>\<open>Math.random()\<close> is \<open>1/2\<close>,
  the sine is approximated by a polynomial after reducing its argument, and a finite
  number is printed in positional decimal notation with at most 17 fractional digits.
\<close>

definition approx_sine :: "real \<Rightarrow> real" where
  "approx_sine x =
     (let y = x - 710 / 113 * of_int \<lfloor>(x + 355 / 113) / (710 / 113)\<rfloor>
      in y - y ^ 3 / 6 + y ^ 5 / 120 - y ^ 7 / 5040 + y ^ 9 / 362880)"

fun frac_digits :: "nat \<Rightarrow> real \<Rightarrow> string" where
  "frac_digits 0 x = []"
| "frac_digits (Suc n) x =
     (if x = 0 then []
      else char_of (48 + nat \<lfloor>x * 10\<rfloor>) # frac_digits n (x * 10 - of_int \<lfloor>x * 10\<rfloor>))"

definition print_real :: "real \<Rightarrow> string" where
  "print_real x =
     (let a = \<bar>x\<bar>; f = a - of_int \<lfloor>a\<rfloor> in
      (if x < 0 then ''-'' else []) @ show_nat (nat \<lfloor>a\<rfloor>) @
      (if f = 0 then [] else ''.'' @ frac_digits 17 f))"

definition env0 :: env where
  "env0 = \<lparr> rand = (\<lambda>k. 1 / 2), sine = approx_sine, num_str = print_real,
            now = ''2025-01-01T00:00:00.000Z'' \<rparr>"

section \<open>Notions of the specification\<close>

text \<open>
  The first maximal entry in encounter order, the tie-break the specification words for
  the summary generator.
\<close>

definition first_maximal :: "(string \<times> real) list \<Rightarrow> string" where
  "first_maximal es = fst (foldl (\<lambda>a b. if snd b > snd a then b else a) (hd es) (tl es))"

text \<open>
  When \<^verbatim>\<open>sort\<close> leaves \<open>a\<close> before a later \<open>b\<close>: the comparator is not positive on
  the pair.
\<close>

definition stays_before :: "('a \<Rightarrow> 'a \<Rightarrow> number) \<Rightarrow> 'a \<Rightarrow> 'a \<Rightarrow> bool" where
  "stays_before cmp a b \<longleftrightarrow> \<not> num_lt (Fin 0) (cmp a b)"

text \<open>A visit the \<^verbatim>\<open>filter\<close> of \<^verbatim>\<open>validateVisits\<close> keeps: its test returns true.\<close>

definition keeps :: "visit \<Rightarrow> bool" where
  "keeps v \<longleftrightarrow> keep_visit v = Returns True"

text \<open>
  The latest gestational age is at or past 40 weeks: some validated visit, hence the
  one with the greatest gestational age, has it at 40 or more.
\<close>

definition at_term :: "visit list \<Rightarrow> bool" where
  "at_term vs \<longleftrightarrow> (\<exists>v \<in> set vs. num_le (Fin 40) (number_of (GESTATIONAL_AGE_WEEKS v)))"

text \<open>The fixed fallback result, around a given progression.\<close>

definition fixed_fallback :: "env \<Rightarrow> progression option \<Rightarrow> prediction" where
  "fixed_fallback env pg =
     \<lparr> deliveryType = \<lparr> FullTerm = 0.80, Premature = 0.15, MortalityRisk = 0.05 \<rparr>,
       deliveryMode = \<lparr> Normal = 0.70, CSection = 0.30 \<rparr>,
       progression = pg,
       summary = ''Using standard pregnancy progression model - insufficient patient data for personalized prediction.'',
       expectedGestationalAge = 39.0,
       expectedBirthWeight = 3.2,
       riskScores = None,
       isFallback = True,
       metadata = \<lparr> currentGestationalAge = None, weeksProjected = None, visitCount = None,
                    generatedAt = now env, source = ''fallback-model'' \<rparr> \<rparr>"

text \<open>The weeks of the six series of a progression.\<close>

definition weeks_of :: "progression \<Rightarrow> jsval list list" where
  "weeks_of p = [map week (s_weight p), map week (s_fundal p), map week (s_hb p),
                 map week (s_systolic p), map week (s_diastolic p), map week (s_fetal_hr p)]"

text \<open>
  A distribution: every probability in \<open>[0, 1]\<close> and the sum within 0.02 of 1.
\<close>

definition distribution_ok :: "real list \<Rightarrow> bool" where
  "distribution_ok ps \<longleftrightarrow> (\<forall>p \<in> set ps. 0 \<le> p \<and> p \<le> 1) \<and> \<bar>sum_list ps - 1\<bar> \<le> 2 / 100"

text \<open>A call returns a value: it neither raises nor runs forever.\<close>

definition returns :: "'a outcome \<Rightarrow> bool" where
  "returns m = (case m of Returns a \<Rightarrow> True | _ \<Rightarrow> False)"

text \<open>The full pipeline result, from the risk scores and the progression.\<close>

definition pipeline_result ::
  "env \<Rightarrow> engine \<Rightarrow> jsval \<Rightarrow> number \<Rightarrow> riskScores \<Rightarrow> progression \<Rightarrow> prediction" where
  "pipeline_result env e ga w rs pg =
     \<lparr> deliveryType = calculateDeliveryTypeProbabilities rs,
       deliveryMode = calculateDeliveryModeProbabilities e rs,
       progression = Some pg,
       summary = generateSummary rs (calculateDeliveryTypeProbabilities rs)
                   (calculateDeliveryModeProbabilities e rs),
       expectedGestationalAge =
         expectedGA (calculateExpectedDelivery rs (calculateDeliveryTypeProbabilities rs)),
       expectedBirthWeight =
         expectedWeight (calculateExpectedDelivery rs (calculateDeliveryTypeProbabilities rs)),
       riskScores = Some rs,
       isFallback = False,
       metadata = \<lparr> currentGestationalAge = Some ga, weeksProjected = Some w,
                    visitCount = Some (length (validatedVisits e)),
                    generatedAt = now env, source = ''rule-based-engine'' \<rparr> \<rparr>"

text \<open>
  Input on which the full pipeline is shown to return. For a visit: the gestational age
  and the maternal weight are not strings, arrays or objects, and the fundal height,
  the hemoglobin level and the fetal heart rate are not objects with a \<^verbatim>\<open>toString\<close>
  entry (nor arrays holding one). For the patient: the medical history is a string or
  absent, and the age, the BMI and the parity are not such objects.
\<close>

definition typed_visit :: "visit \<Rightarrow> bool" where
  "typed_visit v \<longleftrightarrow>
     \<not> stringy (GESTATIONAL_AGE_WEEKS v) \<and> \<not> stringy (MATERNAL_WEIGHT v)
     \<and> \<not> unprintable (FUNDAL_HEIGHT v) \<and> \<not> unprintable (HEMOGLOBIN_LEVEL v)
     \<and> \<not> unprintable (FETAL_HEART_RATE v)"

definition typed_patient :: "jsval \<Rightarrow> bool" where
  "typed_patient p \<longleftrightarrow>
     \<not> unprintable (get_prop p ''AGE'') \<and> \<not> unprintable (get_prop p ''BMI_VALUE'')
     \<and> \<not> unprintable (get_prop p ''PARITY'')
     \<and> (case get_prop p ''MEDICAL_HISTORY'' of
          JUndefined \<Rightarrow> True | JNull \<Rightarrow> True | JStr s \<Rightarrow> True | _ \<Rightarrow> False)"

definition well_typed :: "engine \<Rightarrow> bool" where
  "well_typed e \<longleftrightarrow> list_all typed_visit (validatedVisits e) \<and> typed_patient (patient e)"

text \<open>
  The trend as the specification words it, on visits whose gestational age is a
  positive finite number and whose metric is a finite number other than 0 or missing:
  0 with fewer than two visits; otherwise, on the visits sorted ascending by
  gestational age, 0 when the first or the last value is missing or when the
  gestational-age span is zero, and else the quotient of the differences.
\<close>

definition ga_value :: "visit \<Rightarrow> real" where
  "ga_value v = (case GESTATIONAL_AGE_WEEKS v of JNum (Fin g) \<Rightarrow> g | _ \<Rightarrow> 0)"

definition metric_value :: "string \<Rightarrow> visit \<Rightarrow> real option" where
  "metric_value k v = (case visit_field k v of JNum (Fin x) \<Rightarrow> Some x | _ \<Rightarrow> None)"

definition trend_spec :: "visit list \<Rightarrow> string \<Rightarrow> real" where
  "trend_spec vs k =
     (if length vs < 2 then 0
      else
        let s = sort_key ga_value vs in
        case (metric_value k (hd s), metric_value k (last s)) of
          (Some a, Some b) \<Rightarrow>
            if ga_value (last s) - ga_value (hd s) = 0 then 0
            else (b - a) / (ga_value (last s) - ga_value (hd s))
        | _ \<Rightarrow> 0)"

definition numeric_ga :: "visit \<Rightarrow> bool" where
  "numeric_ga v = (case GESTATIONAL_AGE_WEEKS v of JNum (Fin g) \<Rightarrow> 0 < g | _ \<Rightarrow> False)"

definition numeric_metric :: "string \<Rightarrow> visit \<Rightarrow> bool" where
  "numeric_metric k v =
     (case visit_field k v of JNull \<Rightarrow> True | JNum (Fin x) \<Rightarrow> x \<noteq> 0 | _ \<Rightarrow> False)"

definition numeric_visits :: "visit list \<Rightarrow> string \<Rightarrow> bool" where
  "numeric_visits vs k \<longleftrightarrow> (\<forall>v \<in> set vs. numeric_ga v \<and> numeric_metric k v)"

subsection \<open>Sample inputs\<close>

definition tied_scores :: riskScores where
  "tied_scores = \<lparr> anemia = 0.1, hypertension = 0.6, growthRestriction = 0.1, pretermRisk = 0.6,
                   maternalAgeRisk = 0.1, bmiRisk = 0.1 \<rparr>"

definition high_scores :: riskScores where
  "high_scores = \<lparr> anemia = 0.8, hypertension = 0.9, growthRestriction = 0.7, pretermRisk = 0.3,
                   maternalAgeRisk = 0.1, bmiRisk = 0.5 \<rparr>"

definition sample_raw_visits :: "jsval list" where
  "sample_raw_visits =
     [JObj [(''GESTATIONAL_AGE_WEEKS'', JNum (Fin 0))],
      JObj [(''GESTATIONAL_AGE_WEEKS'', JNum (Fin (- 3)))],
      JObj [(''MATERNAL_WEIGHT'', JNum (Fin 61))],
      JObj [(''GESTATIONAL_AGE_WEEKS'', JNum (Fin 30)), (''HEMOGLOBIN_LEVEL'', JNum (Fin 0)),
            (''NOTE'', JStr ''extra'')],
      JNum (Fin 5),
      JObj [(''GESTATIONAL_AGE_WEEKS'', JNum (Fin 12)), (''MATERNAL_WEIGHT'', JNum (Fin 60))]]"

text \<open>
  An engine whose latest visit has hemoglobin 9.5, blood pressure 150/95 and a fundal
  height 6 above its gestational age of 20, for a patient with BMI 32 and parity 0.
\<close>

definition risky_engine :: engine where
  "risky_engine =
     \<lparr> visits = JArr [],
       patient = JObj [(''BMI_VALUE'', JNum (Fin 32)), (''PARITY'', JNum (Fin 0))],
       validatedVisits =
         [\<lparr> GESTATIONAL_AGE_WEEKS = JNum (Fin 20), MATERNAL_WEIGHT = JNull,
            FUNDAL_HEIGHT = JNum (Fin 26), HEMOGLOBIN_LEVEL = JNum (Fin 9.5),
            BLOOD_PRESSURE = JStr ''150/95'', FETAL_HEART_RATE = JNull,
            COMPLICATIONS = JNull, VISIT_DATE = JNull \<rparr>] \<rparr>"

text \<open>A validated visit with gestational age \<open>g\<close> and no other field.\<close>

definition visit_at :: "real \<Rightarrow> visit" where
  "visit_at g = \<lparr> GESTATIONAL_AGE_WEEKS = JNum (Fin g), MATERNAL_WEIGHT = JNull,
                  FUNDAL_HEIGHT = JNull, HEMOGLOBIN_LEVEL = JNull, BLOOD_PRESSURE = JNull,
                  FETAL_HEART_RATE = JNull, COMPLICATIONS = JNull, VISIT_DATE = JNull \<rparr>"



text \<open>
  The engines of no visit, of one visit at week 41, and of one visit at week 39 with
  hemoglobin 9.5 and blood pressure 150/95 for a patient with BMI 32 and parity 0.
\<close>

definition empty_engine :: engine where
  "empty_engine = \<lparr> visits = JArr [], patient = JObj [], validatedVisits = [] \<rparr>"

definition term_engine :: engine where
  "term_engine = \<lparr> visits = JArr [JObj [(''GESTATIONAL_AGE_WEEKS'', JNum (Fin 41))]],
                    patient = JObj [], validatedVisits = [visit_at 41] \<rparr>"

definition late_engine :: engine where
  "late_engine =
     \<lparr> visits = JArr [JObj [(''GESTATIONAL_AGE_WEEKS'', JNum (Fin 39)),
                            (''HEMOGLOBIN_LEVEL'', JNum (Fin 9.5)),
                            (''BLOOD_PRESSURE'', JStr ''150/95'')]],
       patient = JObj [(''BMI_VALUE'', JNum (Fin 32)), (''PARITY'', JNum (Fin 0))],
       validatedVisits = [(visit_at 39)\<lparr> HEMOGLOBIN_LEVEL := JNum (Fin 9.5),
                                          BLOOD_PRESSURE := JStr ''150/95'' \<rparr>] \<rparr>"

text \<open>Three visits out of order, two of them with a maternal weight.\<close>

definition trend_engine :: engine where
  "trend_engine =
     \<lparr> visits = JArr [], patient = JObj [],
       validatedVisits = [(visit_at 30)\<lparr> MATERNAL_WEIGHT := JNum (Fin 70) \<rparr>,
                          (visit_at 20)\<lparr> MATERNAL_WEIGHT := JNum (Fin 60) \<rparr>,
                          visit_at 25] \<rparr>"

text \<open>Two visits of the same week with different weights.\<close>

definition same_week_engine :: engine where
  "same_week_engine =
     \<lparr> visits = JArr [], patient = JObj [],
       validatedVisits = [(visit_at 20)\<lparr> MATERNAL_WEIGHT := JNum (Fin 60) \<rparr>,
                          (visit_at 20)\<lparr> MATERNAL_WEIGHT := JNum (Fin 70) \<rparr>] \<rparr>"

text \<open>A visit whose gestational age is the string "20", and one whose weight is "65".\<close>

definition string_ga_visit :: visit where
  "string_ga_visit = (visit_at 20)\<lparr> GESTATIONAL_AGE_WEEKS := JStr ''20'' \<rparr>"

definition string_weight_visit :: visit where
  "string_weight_visit = (visit_at 20)\<lparr> MATERNAL_WEIGHT := JStr ''65'' \<rparr>"

text \<open>
  The input of one visit whose gestational age is the string "20", and the input of one
  visit at week 20 whose hemoglobin level is the object \<^verbatim>\<open>{"toString": 1}\<close>, with their
  engines.
\<close>

definition string_ga_input :: jsval where
  "string_ga_input = JArr [JObj [(''GESTATIONAL_AGE_WEEKS'', JStr ''20'')]]"

definition string_ga_engine :: engine where
  "string_ga_engine = \<lparr> visits = string_ga_input, patient = JObj [],
                         validatedVisits = [string_ga_visit] \<rparr>"

definition object_hb_input :: jsval where
  "object_hb_input =
     JArr [JObj [(''GESTATIONAL_AGE_WEEKS'', JNum (Fin 20)),
                 (''HEMOGLOBIN_LEVEL'', JObj [(''toString'', JNum (Fin 1))])]]"

definition object_hb_engine :: engine where
  "object_hb_engine =
     \<lparr> visits = object_hb_input, patient = JObj [],
       validatedVisits =
         [(visit_at 20)\<lparr> HEMOGLOBIN_LEVEL := JObj [(''toString'', JNum (Fin 1))] \<rparr>] \<rparr>"

section \<open>Properties\<close>

subsection \<open>Coercions\<close>

lemma and_then_Returns:
  "and_then m f = Returns r \<longleftrightarrow> (\<exists>a. m = Returns a \<and> f a = Returns r)"
  by (cases m) auto

lemma and_then_Throws:
  "and_then m f = Throws x \<longleftrightarrow> m = Throws x \<or> (\<exists>a. m = Returns a \<and> f a = Throws x)"
  by (cases m) auto

lemma and_then_Diverges:
  "and_then m f = Diverges \<longleftrightarrow> m = Diverges \<or> (\<exists>a. m = Returns a \<and> f a = Diverges)"
  by (cases m) auto

lemma returns_iff: "returns m \<longleftrightarrow> (\<exists>r. m = Returns r)"
  by (cases m) (simp_all add: returns_def)

lemma returns_Returns: "returns (Returns a)"
  by (simp add: returns_def)

lemma returns_and_then: "returns (and_then m f) \<longleftrightarrow> (\<exists>a. m = Returns a \<and> returns (f a))"
  by (cases m) (simp_all add: returns_def)

lemma unprintable_stringy: "unprintable v \<Longrightarrow> stringy v"
  by (cases v) auto

lemma to_number_Returns: "\<not> unprintable v \<Longrightarrow> to_number v = Returns (number_of v)"
  by (simp add: to_number_def)

lemma to_number_Throws: "unprintable v \<Longrightarrow> to_number v = Throws TypeError"
  by (simp add: to_number_def)

lemma to_number_cases:
  "to_number v = Returns (number_of v) \<and> \<not> unprintable v
   \<or> to_number v = Throws TypeError \<and> unprintable v"
  by (simp add: to_number_def)

lemma js_lt_Returns: "\<not> unprintable v \<Longrightarrow> js_lt v c = Returns (num_lt (number_of v) (Fin c))"
  by (simp add: js_lt_def to_number_def)

lemma js_gt_Returns: "\<not> unprintable v \<Longrightarrow> js_gt v c = Returns (num_lt (Fin c) (number_of v))"
  by (simp add: js_gt_def to_number_def)

lemma js_lt_Throws: "unprintable v \<Longrightarrow> js_lt v c = Throws TypeError"
  by (simp add: js_lt_def to_number_def)

lemma js_gt_Throws: "unprintable v \<Longrightarrow> js_gt v c = Throws TypeError"
  by (simp add: js_gt_def to_number_def)

lemma js_sub_Returns:
  "\<not> unprintable a \<Longrightarrow> \<not> unprintable b \<Longrightarrow>
   js_sub a b = Returns (num_sub (number_of a) (number_of b))"
  by (simp add: js_sub_def to_number_def)

lemma js_sub_Throws: "unprintable a \<or> unprintable b \<Longrightarrow> js_sub a b = Throws TypeError"
  by (auto simp: js_sub_def to_number_def)

lemma js_add_numbers:
  "\<not> stringy a \<Longrightarrow> \<not> stringy b \<Longrightarrow>
   js_add pr a b = Returns (JNum (num_add (number_of a) (number_of b)))"
  using unprintable_stringy [of a] unprintable_stringy [of b]
  by (auto simp: js_add_def to_number_def)

lemma js_add_strings:
  "stringy a \<or> stringy b \<Longrightarrow> \<not> unprintable a \<Longrightarrow> \<not> unprintable b \<Longrightarrow>
   js_add pr a b = Returns (JStr (string_of pr a @ string_of pr b))"
  by (auto simp: js_add_def to_string_def)

lemma js_add_Throws: "unprintable a \<or> unprintable b \<Longrightarrow> js_add pr a b = Throws TypeError"
  using unprintable_stringy [of a] unprintable_stringy [of b]
  by (auto simp: js_add_def to_string_def)

lemma js_add_primitive: "js_add pr a b = Returns v \<Longrightarrow> \<not> unprintable v"
  by (auto simp: js_add_def and_then_Returns split: if_splits)

lemma js_add_not_Diverges: "js_add pr a b \<noteq> Diverges"
  by (auto simp: js_add_def to_string_def to_number_def)

lemma keeps_iff:
  "keeps v \<longleftrightarrow>
     truthy (GESTATIONAL_AGE_WEEKS v) \<and> \<not> unprintable (GESTATIONAL_AGE_WEEKS v)
     \<and> num_lt (Fin 0) (number_of (GESTATIONAL_AGE_WEEKS v))"
  by (auto simp: keeps_def keep_visit_def js_gt_def to_number_def)

subsection \<open>Rounding\<close>

lemma to_fixed1_tenths: "to_fixed 1 (of_int k / 10) = of_int k / 10"
proof -
  have "\<bar>real_of_int k / 10\<bar> * 10 ^ 1 + 1 / 2 = of_int \<bar>k\<bar> + 1 / 2"
    by simp
  moreover have "\<lfloor>real_of_int \<bar>k\<bar> + 1 / 2\<rfloor> = \<bar>k\<bar>"
    by linarith
  ultimately have "to_fixed 1 (of_int k / 10) = sgn (real_of_int k / 10) * (of_int \<bar>k\<bar> / 10)"
    by (simp add: to_fixed_def)
  also have "\<dots> = of_int k / 10"
    by (cases "k < 0"; cases "k = 0"; simp add: sgn_if)
  finally show ?thesis .
qed

lemma roundProbability_hundredths: "roundProbability (of_int k / 100) = of_int k / 100"
proof -
  have "\<lfloor>real_of_int k + 1 / 2\<rfloor> = k"
    by linarith
  then show ?thesis
    by (simp add: roundProbability_def round_half_up_def)
qed

subsection \<open>Expected delivery\<close>

text \<open>
  Claim C9. For every risk-score set and delivery-type distribution, the expected
  gestational age starts from 39.2 and becomes 36.5 when Premature exceeds 0.3 and
  otherwise 38.0 when it exceeds 0.15; the expected weight starts from 3.3 and loses 0.5,
  0.3 and 0.2 for growth restriction, hypertension and anemia above 0.5, and a further
  0.4 when the adjusted gestational age is below 37.5. Both are clamped (to 35..40 and
  2.5..4) and rounded to one decimal; the results lie in these ranges. (The clamp and
  the rounding leave the gestational age unchanged, and the rounding leaves the clamped
  weight unchanged, every value being a multiple of 0.1.)
\<close>

theorem calculateExpectedDelivery_spec:
  fixes rs :: riskScores and dt :: deliveryType
  defines "ga \<equiv> (if Premature dt > 0.3 then 36.5
                  else if Premature dt > 0.15 then 38.0 else (39.2 :: real))"
  defines "w \<equiv> (3.3 :: real) - (if growthRestriction rs > 0.5 then 0.5 else 0)
                 - (if hypertension rs > 0.5 then 0.3 else 0)
                 - (if anemia rs > 0.5 then 0.2 else 0)
                 - (if ga < 37.5 then 0.4 else 0)"
  defines "r \<equiv> calculateExpectedDelivery rs dt"
  shows "expectedGA r = to_fixed 1 (min 40 (max 35 ga))
       \<and> expectedWeight r = to_fixed 1 (min 4 (max 2.5 w))
       \<and> expectedGA r = ga
       \<and> expectedWeight r = max 2.5 w
       \<and> 35 \<le> expectedGA r \<and> expectedGA r \<le> 40
       \<and> 2.5 \<le> expectedWeight r \<and> expectedWeight r \<le> 4"
proof -
  define gi :: int where
    "gi = (if Premature dt > 0.3 then 365 else if Premature dt > 0.15 then 380 else 392)"
  define wi :: int where
    "wi = 33 - (if growthRestriction rs > 0.5 then 5 else 0)
             - (if hypertension rs > 0.5 then 3 else 0)
             - (if anemia rs > 0.5 then 2 else 0)
             - (if gi < 375 then 4 else 0)"
  have ga: "ga = of_int gi / 10"
    unfolding ga_def gi_def by simp
  have gi_cases: "gi = 365 \<or> gi = 380 \<or> gi = 392"
    unfolding gi_def by simp
  have lt: "(ga < 37.5) = (gi < 375)"
    using gi_cases unfolding ga by auto
  have w: "w = of_int wi / 10"
    unfolding w_def wi_def lt by simp
  have wi_bounds: "19 \<le> wi" "wi \<le> 33"
    unfolding wi_def by simp_all
  have cg: "min 40 (max 35 ga) = of_int gi / 10"
    using gi_cases unfolding ga by auto
  have cw: "min 4 (max 2.5 w) = of_int (max 25 wi) / 10"
    using wi_bounds unfolding w by (simp add: max_def min_def)
  have step: "(if c then x - d else x) = x - (if c then d else 0)" for c and x d :: real
    by simp
  have eg: "expectedGA r = to_fixed 1 (min 40 (max 35 ga))"
    unfolding r_def calculateExpectedDelivery_def ga_def Let_def
    by (simp split del: if_split)
  have ew: "expectedWeight r = to_fixed 1 (min 4 (max 2.5 w))"
    unfolding r_def calculateExpectedDelivery_def w_def ga_def Let_def step
    by (simp split del: if_split)
  have eg': "expectedGA r = of_int gi / 10"
    unfolding eg cg by (rule to_fixed1_tenths)
  have ew': "expectedWeight r = of_int (max 25 wi) / 10"
    unfolding ew cw by (rule to_fixed1_tenths)
  have mw: "max 2.5 w = of_int (max 25 wi) / 10"
    unfolding w by (simp add: max_def)
  have e3: "expectedGA r = ga"
    unfolding eg' ga ..
  have e4: "expectedWeight r = max 2.5 w"
    unfolding ew' mw ..
  have b1: "35 \<le> expectedGA r \<and> expectedGA r \<le> 40"
    using gi_cases unfolding eg' by auto
  have b2: "2.5 \<le> expectedWeight r \<and> expectedWeight r \<le> 4"
    using wi_bounds unfolding ew' by (simp add: max_def)
  from eg ew e3 e4 b1 b2 show ?thesis
    by blast
qed

theorem calculateExpectedDelivery_spec_witness:
  "expectedGA (calculateExpectedDelivery high_scores
      \<lparr> FullTerm = 0.64, Premature = 0.26, MortalityRisk = 0.11 \<rparr>) = 38
   \<and> expectedWeight (calculateExpectedDelivery high_scores
      \<lparr> FullTerm = 0.64, Premature = 0.26, MortalityRisk = 0.11 \<rparr>) = 2.5"
  using calculateExpectedDelivery_spec
    [of high_scores "\<lparr> FullTerm = 0.64, Premature = 0.26, MortalityRisk = 0.11 \<rparr>"]
  by (simp add: high_scores_def)

subsection \<open>The worked risk example\<close>

lemma parse_150_95:
  "parseBloodPressure (JStr ''150/95'') = Returns \<lparr> systolic = Fin 150, diastolic = Fin 95 \<rparr>"
  by code_simp

text \<open>
  Claim C4. For a latest visit with hemoglobin 9.5, blood pressure "150/95" and fundal
  height equal to its gestational age plus 6, and a patient with BMI 32, parity 0
  (the number or the string) and an age that converts to a number (any JSON value
  other than an object with a \<^verbatim>\<open>toString\<close> entry or an array holding one, on which the
  age comparison raises), the risk scorer yields anemia 0.8, hypertension 0.9,
  growthRestriction 0.7 and bmiRisk 0.5, the C-section risk
  min(0.7, 0.4 hypertension + 0.3 growthRestriction + 0.2 bmiRisk + 0.1) is 0.7, and the
  delivery-mode model yields exactly Normal 0.30 and CSection 0.70.
\<close>

theorem risk_example:
  assumes ne: "validatedVisits e \<noteq> []"
    and hb: "HEMOGLOBIN_LEVEL (last (validatedVisits e)) = JNum (Fin 9.5)"
    and bp: "BLOOD_PRESSURE (last (validatedVisits e)) = JStr ''150/95''"
    and ga: "GESTATIONAL_AGE_WEEKS (last (validatedVisits e)) = JNum (Fin g)"
    and g: "0 < g"
    and fh: "FUNDAL_HEIGHT (last (validatedVisits e)) = JNum (Fin (g + 6))"
    and bmi: "get_prop (patient e) ''BMI_VALUE'' = JNum (Fin 32)"
    and par: "get_prop (patient e) ''PARITY'' = JNum (Fin 0)
              \<or> get_prop (patient e) ''PARITY'' = JStr ''0''"
    and age: "\<not> unprintable (get_prop (patient e) ''AGE'')"
  shows "\<exists>rs. calculateRiskScores e = Returns rs
           \<and> anemia rs = 0.8 \<and> hypertension rs = 0.9 \<and> growthRestriction rs = 0.7
           \<and> bmiRisk rs = 0.5
           \<and> min 0.7 (0.4 * hypertension rs + 0.3 * growthRestriction rs
                       + 0.2 * bmiRisk rs + 0.1) = 0.7
           \<and> calculateDeliveryModeProbabilities e rs = \<lparr> Normal = 0.30, CSection = 0.70 \<rparr>"
proof -
  have a: "anemiaScore (last (validatedVisits e)) = Returns 0.8"
    by (simp add: anemiaScore_def hb js_lt_def to_number_def)
  have h: "hypertensionScore (last (validatedVisits e)) = Returns 0.9"
    by (simp add: hypertensionScore_def bp parse_150_95 num_le_def)
  have gr: "growthScore (last (validatedVisits e)) = Returns 0.7"
    using g by (simp add: growthScore_def fh ga js_sub_def to_number_def num_sub_def)
  have b: "bmiScore e = Returns 0.5"
    by (simp add: bmiScore_def bmi js_lt_def js_gt_def to_number_def)
  have s0: "string_to_number ''0'' = Fin 0"
    by code_simp
  have hist: "hasPretermHistory e = Returns False"
    using par by (auto simp: hasPretermHistory_def js_gt_def to_number_def s0)
  define p :: real where "p = (if g < 32 then 0.3 else 0.1)"
  have p: "pretermScore e (last (validatedVisits e)) = Returns p"
    by (simp add: pretermScore_def ga js_lt_Returns hist Let_def p_def)
  define a where "a = number_of (js_or (get_prop (patient e) ''AGE'') (JNum (Fin 25)))"
  define m :: real where "m = (if num_lt a (Fin 18) \<or> num_lt (Fin 35) a then 0.4 else 0.1)"
  have "\<not> unprintable (js_or (get_prop (patient e) ''AGE'') (JNum (Fin 25)))"
    using age by (simp add: js_or_def)
  then have m: "maternalAgeScore e = Returns m"
    by (simp add: maternalAgeScore_def Let_def js_lt_Returns js_gt_Returns m_def a_def)
  define rs where "rs = \<lparr> anemia = 0.8, hypertension = 0.9, growthRestriction = 0.7,
      pretermRisk = p, maternalAgeRisk = m, bmiRisk = 0.5 \<rparr>"
  have rs: "calculateRiskScores e = Returns rs"
    by (simp add: calculateRiskScores_def ne a h gr b p m rs_def Let_def)
  have r7: "roundProbability 0.7 = 0.7"
    using roundProbability_hundredths [of 70] by simp
  have r3: "roundProbability 0.3 = 0.3"
    using roundProbability_hundredths [of 30] by simp
  have dm0: "calculateDeliveryModeProbabilities e rs =
      \<lparr> Normal = roundProbability (1 - 0.7), CSection = roundProbability 0.7 \<rparr>"
    using par by (auto simp: calculateDeliveryModeProbabilities_def Let_def rs_def)
  have dm: "calculateDeliveryModeProbabilities e rs = \<lparr> Normal = 0.30, CSection = 0.70 \<rparr>"
    unfolding dm0 using r7 r3 by simp
  show ?thesis
    using rs dm by (intro exI [of _ rs]) (simp add: rs_def)
qed

theorem risk_example_witness:
  "\<exists>rs. calculateRiskScores risky_engine = Returns rs
      \<and> anemia rs = 0.8 \<and> hypertension rs = 0.9 \<and> growthRestriction rs = 0.7
      \<and> bmiRisk rs = 0.5
      \<and> min 0.7 (0.4 * hypertension rs + 0.3 * growthRestriction rs
                  + 0.2 * bmiRisk rs + 0.1) = 0.7
      \<and> calculateDeliveryModeProbabilities risky_engine rs = \<lparr> Normal = 0.30, CSection = 0.70 \<rparr>"
  by (rule risk_example [of risky_engine 20]) (simp_all add: risky_engine_def)

subsection \<open>The primary risk of the summary\<close>

lemma foldl_pick_last_max:
  "\<exists>j < length (a # es). foldl pick a es = (a # es) ! j
      \<and> (\<forall>i < length (a # es). snd ((a # es) ! i) \<le> snd ((a # es) ! j))
      \<and> (\<forall>i < length (a # es). j < i \<longrightarrow> snd ((a # es) ! i) < snd ((a # es) ! j))"
proof (induction es rule: rev_induct)
  case Nil
  show ?case by simp
next
  case (snoc b es)
  then obtain j where j: "j < length (a # es)" "foldl pick a es = (a # es) ! j"
    and mx: "\<forall>i < length (a # es). snd ((a # es) ! i) \<le> snd ((a # es) ! j)"
    and lt: "\<forall>i < length (a # es). j < i \<longrightarrow> snd ((a # es) ! i) < snd ((a # es) ! j)"
    by blast
  let ?xs = "a # es" and ?ys = "a # es @ [b]"
  have n1: "?ys ! i = ?xs ! i" if "i < length ?xs" for i
    using that by (auto simp: nth_Cons' nth_append)
  have n2: "?ys ! length ?xs = b"
    by (simp add: nth_append)
  have len: "length ?ys = Suc (length ?xs)"
    by simp
  show ?case
  proof (cases "snd (?xs ! j) > snd b")
    case True
    have "foldl pick a (es @ [b]) = ?ys ! j"
      using True j n1 [of j] by (simp add: pick_def)
    moreover have "\<forall>i < length ?ys. snd (?ys ! i) \<le> snd (?ys ! j)"
      unfolding len using True j mx n1 n2 by (metis less_Suc_eq less_imp_le)
    moreover have "\<forall>i < length ?ys. j < i \<longrightarrow> snd (?ys ! i) < snd (?ys ! j)"
      unfolding len using True j lt n1 n2 by (metis less_Suc_eq)
    ultimately show ?thesis
      using j(1) by (intro exI [of _ j]) simp
  next
    case False
    have "foldl pick a (es @ [b]) = ?ys ! length ?xs"
      unfolding n2 using False j by (simp add: pick_def)
    moreover have "\<forall>i < length ?ys. snd (?ys ! i) \<le> snd (?ys ! length ?xs)"
      unfolding len n2
    proof (intro allI impI)
      fix i assume "i < Suc (length ?xs)"
      then consider "i < length ?xs" | "i = length ?xs" by linarith
      then show "snd (?ys ! i) \<le> snd b"
      proof cases
        case 1
        then have "snd (?ys ! i) \<le> snd (?xs ! j)" using mx n1 by simp
        then show ?thesis using False by simp
      next
        case 2
        then show ?thesis using n2 by simp
      qed
    qed
    moreover have "\<forall>i < length ?ys. length ?xs < i \<longrightarrow> snd (?ys ! i) < snd (?ys ! length ?xs)"
      by simp
    ultimately show ?thesis
      by (intro exI [of _ "length ?xs"]) simp
  qed
qed

text \<open>
  Claim C5, as amended. The summary generator takes as the primary risk a maximal score
  of the six named scores; when several are tied at the maximum it takes the last of
  them in the encounter order anemia, hypertension, growthRestriction, pretermRisk,
  maternalAgeRisk, bmiRisk (every later entry is strictly smaller than the chosen one).
\<close>

theorem primaryRisk_last_maximal:
  "\<exists>j < length (entries rs). primaryRisk rs = fst (entries rs ! j)
      \<and> (\<forall>i < length (entries rs). snd (entries rs ! i) \<le> snd (entries rs ! j))
      \<and> (\<forall>i < length (entries rs). j < i \<longrightarrow> snd (entries rs ! i) < snd (entries rs ! j))"
proof -
  have e: "entries rs = hd (entries rs) # tl (entries rs)"
    by (simp add: entries_def)
  from foldl_pick_last_max [of "hd (entries rs)" "tl (entries rs)"]
  show ?thesis
    unfolding primaryRisk_def e [symmetric] by metis
qed

theorem primaryRisk_last_maximal_witness:
  "\<exists>j < length (entries tied_scores). primaryRisk tied_scores = fst (entries tied_scores ! j)
      \<and> (\<forall>i < length (entries tied_scores). snd (entries tied_scores ! i) \<le> snd (entries tied_scores ! j))
      \<and> (\<forall>i < length (entries tied_scores). j < i \<longrightarrow> snd (entries tied_scores ! i) < snd (entries tied_scores ! j))"
  by (rule primaryRisk_last_maximal)

text \<open>
  With hypertension and pretermRisk tied at 0.6 (a blood pressure of 135/80 and a preterm
  history before week 37 give these scores) the first maximal entry is hypertension,
  and the generator takes pretermRisk, which is the risk its summary names.
\<close>

theorem primaryRisk_first_counterexample:
  "hypertension tied_scores = pretermRisk tied_scores
   \<and> first_maximal (entries tied_scores) = ''hypertension''
   \<and> primaryRisk tied_scores = ''pretermRisk''
   \<and> generateSummary tied_scores (calculateDeliveryTypeProbabilities tied_scores)
         \<lparr> Normal = 0.7, CSection = 0.3 \<rparr>
       = ''Moderate preterm delivery risk noted. 72% chance of full-term delivery with increased monitoring recommended.''"
proof -
  have "calculateDeliveryTypeProbabilities tied_scores =
          \<lparr> FullTerm = 0.72, Premature = 0.2, MortalityRisk = 0.08 \<rparr>"
    by code_simp
  moreover have "generateSummary tied_scores
          \<lparr> FullTerm = 0.72, Premature = 0.2, MortalityRisk = 0.08 \<rparr>
          \<lparr> Normal = 0.7, CSection = 0.3 \<rparr>
       = ''Moderate preterm delivery risk noted. 72% chance of full-term delivery with increased monitoring recommended.''"
    by code_simp
  ultimately show ?thesis
    by (simp add: tied_scores_def first_maximal_def primaryRisk_def entries_def pick_def)
qed

subsection \<open>The blood-pressure parser\<close>

lemma split_on_none: "c \<notin> set b \<Longrightarrow> split_on c b = [b]"
  by (induction b) auto

lemma split_on_first: "c \<notin> set a \<Longrightarrow> split_on c (a @ c # b) = a # split_on c b"
  by (induction a) auto

lemma split_on_nonempty: "split_on c s \<noteq> []"
  by (induction s) (auto split: list.splits)

lemma parseBloodPressure_returns: "\<exists>r. parseBloodPressure v = Returns r"
proof (cases v)
  case (JStr s)
  then show ?thesis
    using split_on_nonempty [of "CHR ''/''" s]
    by (auto simp: parseBloodPressure_def parse_parts_def split: list.splits)
qed (auto simp: parseBloodPressure_def parse_parts_def)

lemma parse_two:
  assumes "CHR ''/'' \<notin> set a" "CHR ''/'' \<notin> set b"
  shows "parseBloodPressure (JStr (a @ ''/'' @ b)) =
         Returns \<lparr> systolic = number_or (string_to_number a) 115,
                   diastolic = number_or (string_to_number b) 70 \<rparr>"
  using assms by (simp add: parseBloodPressure_def parse_parts_def split_on_first split_on_none)

lemma parse_one:
  assumes "CHR ''/'' \<notin> set a" "a \<noteq> []"
  shows "parseBloodPressure (JStr a) =
         Returns \<lparr> systolic = number_or (string_to_number a) 115, diastolic = Fin 70 \<rparr>"
  using assms by (simp add: parseBloodPressure_def parse_parts_def split_on_none)

text \<open>
  Claim C6, as amended. The parser maps "120/80" to 120 and 80; it maps an absent, empty
  or unparsable input such as "abc" (any string without a slash that does not parse, or
  parses to zero) to the fallback 115 and 70; it never raises; and on
  a string of two parts it falls back per component: a part that is unparsable, empty
  or zero yields its default (115 for the numerator, 70 for the denominator), and a part
  that parses to a number other than zero is kept.
\<close>

theorem parseBloodPressure_spec:
  "parseBloodPressure (JStr ''120/80'') = Returns \<lparr> systolic = Fin 120, diastolic = Fin 80 \<rparr>
   \<and> parseBloodPressure JUndefined = Returns \<lparr> systolic = Fin 115, diastolic = Fin 70 \<rparr>
   \<and> parseBloodPressure JNull = Returns \<lparr> systolic = Fin 115, diastolic = Fin 70 \<rparr>
   \<and> parseBloodPressure (JStr []) = Returns \<lparr> systolic = Fin 115, diastolic = Fin 70 \<rparr>
   \<and> parseBloodPressure (JStr ''abc'') = Returns \<lparr> systolic = Fin 115, diastolic = Fin 70 \<rparr>
   \<and> (\<forall>v. \<exists>r. parseBloodPressure v = Returns r)
   \<and> (\<forall>a. CHR ''/'' \<notin> set a \<and> (string_to_number a = NaN \<or> string_to_number a = Fin 0) \<longrightarrow>
         parseBloodPressure (JStr a) = Returns \<lparr> systolic = Fin 115, diastolic = Fin 70 \<rparr>)
   \<and> (\<forall>a b. CHR ''/'' \<notin> set a \<and> CHR ''/'' \<notin> set b \<longrightarrow>
         (\<exists>r. parseBloodPressure (JStr (a @ ''/'' @ b)) = Returns r
            \<and> systolic r = (if string_to_number a = NaN \<or> string_to_number a = Fin 0
                             then Fin 115 else string_to_number a)
            \<and> diastolic r = (if string_to_number b = NaN \<or> string_to_number b = Fin 0
                              then Fin 70 else string_to_number b)))"
proof -
  have 1: "parseBloodPressure (JStr ''120/80'') = Returns \<lparr> systolic = Fin 120, diastolic = Fin 80 \<rparr>"
    by code_simp
  have 2: "parseBloodPressure (JStr ''abc'') = Returns \<lparr> systolic = Fin 115, diastolic = Fin 70 \<rparr>"
    by code_simp
  have 3: "parseBloodPressure JUndefined = Returns \<lparr> systolic = Fin 115, diastolic = Fin 70 \<rparr>"
    "parseBloodPressure JNull = Returns \<lparr> systolic = Fin 115, diastolic = Fin 70 \<rparr>"
    "parseBloodPressure (JStr []) = Returns \<lparr> systolic = Fin 115, diastolic = Fin 70 \<rparr>"
    by (simp_all add: parseBloodPressure_def bp_default_def)
  have 4: "\<forall>v. \<exists>r. parseBloodPressure v = Returns r"
    using parseBloodPressure_returns by blast
  have 5: "\<exists>r. parseBloodPressure (JStr (a @ ''/'' @ b)) = Returns r
            \<and> systolic r = (if string_to_number a = NaN \<or> string_to_number a = Fin 0
                             then Fin 115 else string_to_number a)
            \<and> diastolic r = (if string_to_number b = NaN \<or> string_to_number b = Fin 0
                              then Fin 70 else string_to_number b)"
    if "CHR ''/'' \<notin> set a \<and> CHR ''/'' \<notin> set b" for a b
    using parse_two [of a b] that by (simp add: number_or_def)
  have 6: "parseBloodPressure (JStr a) = Returns \<lparr> systolic = Fin 115, diastolic = Fin 70 \<rparr>"
    if "CHR ''/'' \<notin> set a \<and> (string_to_number a = NaN \<or> string_to_number a = Fin 0)" for a
  proof (cases "a = []")
    case True
    then show ?thesis using 3(3) by simp
  next
    case False
    then show ?thesis
      using parse_one [of a] that by (auto simp: number_or_def)
  qed
  from 1 2 3 4 5 6 show ?thesis by blast
qed

theorem parseBloodPressure_spec_witness:
  "parseBloodPressure (JStr ''abc/80'') = Returns \<lparr> systolic = Fin 115, diastolic = Fin 80 \<rparr>
   \<and> parseBloodPressure (JStr ''120/xyz'') = Returns \<lparr> systolic = Fin 120, diastolic = Fin 70 \<rparr>"
proof -
  have n: "string_to_number ''abc'' = NaN" "string_to_number ''80'' = Fin 80"
    "string_to_number ''120'' = Fin 120" "string_to_number ''xyz'' = NaN"
    by code_simp+
  from parseBloodPressure_spec
  have g: "\<And>a b. CHR ''/'' \<notin> set a \<and> CHR ''/'' \<notin> set b \<Longrightarrow>
         (\<exists>r. parseBloodPressure (JStr (a @ ''/'' @ b)) = Returns r
            \<and> systolic r = (if string_to_number a = NaN \<or> string_to_number a = Fin 0
                             then Fin 115 else string_to_number a)
            \<and> diastolic r = (if string_to_number b = NaN \<or> string_to_number b = Fin 0
                              then Fin 70 else string_to_number b))"
    by blast
  from g [of "''abc''" "''80''"] g [of "''120''" "''xyz''"] show ?thesis
    by (auto simp: n)
qed

text \<open>
  The denominator of "abc/0" parses, to 0, and is not kept: the result is the fallback
  pair.
\<close>

theorem parseBloodPressure_zero_counterexample:
  "string_to_number ''0'' = Fin 0
   \<and> parseBloodPressure (JStr ''abc/0'') = Returns \<lparr> systolic = Fin 115, diastolic = Fin 70 \<rparr>"
  by code_simp

subsection \<open>The visit normalizer\<close>

lemma map_visits_ok: "\<forall>x \<in> set xs. \<not> nullish x \<Longrightarrow> map_visits xs = Returns (map normalize xs)"
  by (induction xs) auto

lemma filter_visits_ok:
  "\<forall>v \<in> set vs. \<not> unprintable (GESTATIONAL_AGE_WEEKS v) \<Longrightarrow>
   filter_visits vs = Returns (filter keeps vs)"
  by (induction vs) (auto simp: keeps_def keep_visit_def js_gt_def to_number_def)

lemma filter_visits_Returns:
  "filter_visits vs = Returns r \<Longrightarrow>
   r = filter keeps vs \<and> (\<forall>v \<in> set vs. truthy (GESTATIONAL_AGE_WEEKS v) \<longrightarrow>
                              \<not> unprintable (GESTATIONAL_AGE_WEEKS v))"
proof (induction vs arbitrary: r)
  case Nil
  then show ?case by simp
next
  case (Cons v vs)
  from Cons.prems obtain k r' where k: "keep_visit v = Returns k"
    and r': "filter_visits vs = Returns r'" and r: "r = (if k then v # r' else r')"
    by (auto simp: and_then_Returns)
  have "truthy (GESTATIONAL_AGE_WEEKS v) \<longrightarrow> \<not> unprintable (GESTATIONAL_AGE_WEEKS v)"
    using k by (auto simp: keep_visit_def js_gt_def to_number_def split: if_splits)
  moreover have "k = keeps v"
    using k by (simp add: keeps_def)
  ultimately show ?case
    using Cons.IH [OF r'] r by auto
qed

lemma normalize_field:
  "k \<in> set [''GESTATIONAL_AGE_WEEKS'', ''MATERNAL_WEIGHT'', ''FUNDAL_HEIGHT'',
             ''HEMOGLOBIN_LEVEL'', ''BLOOD_PRESSURE'', ''FETAL_HEART_RATE'',
             ''COMPLICATIONS'', ''VISIT_DATE''] \<Longrightarrow>
   visit_field k (normalize x) = (if truthy (get_prop x k) then get_prop x k else JNull)"
  by (auto simp: visit_field_def normalize_def js_or_def)

text \<open>
  What the normalizer does where it returns. On a sequence none of whose elements is
  \<^verbatim>\<open>null\<close> or \<^verbatim>\<open>undefined\<close> and none of whose gestational ages is an object with a
  \<^verbatim>\<open>toString\<close> entry (or an array holding one), it returns, in the order of the input,
  the normalized forms of exactly the elements it keeps: an element with a numeric
  gestational age is kept when that age is strictly positive, an element whose
  gestational age is missing is discarded. On a value that is not an array it returns
  the empty sequence.
\<close>

lemma validateVisits_returns:
  "(\<forall>x \<in> set xs. \<not> nullish x \<and> \<not> unprintable (get_prop x ''GESTATIONAL_AGE_WEEKS'')) \<Longrightarrow>
      validateVisits (JArr xs) = Returns (filter keeps (map normalize xs))"
proof -
  assume a: "\<forall>x \<in> set xs. \<not> nullish x \<and> \<not> unprintable (get_prop x ''GESTATIONAL_AGE_WEEKS'')"
  have "\<forall>v \<in> set (map normalize xs). \<not> unprintable (GESTATIONAL_AGE_WEEKS v)"
    using a by (auto simp: normalize_def js_or_def)
  then show ?thesis
    using a by (simp add: validateVisits_def map_visits_ok filter_visits_ok)
qed

lemma validateVisits_not_array:
  "(case v of JArr ys \<Rightarrow> False | _ \<Rightarrow> True) \<Longrightarrow> validateVisits v = Returns []"
  by (cases v) (simp_all add: validateVisits_def)

lemma keeps_numeric:
  "get_prop x ''GESTATIONAL_AGE_WEEKS'' = JNum (Fin g) \<Longrightarrow> keeps (normalize x) = (0 < g)"
  by (auto simp: keeps_iff normalize_def js_or_def)

lemma keeps_missing:
  "get_prop x ''GESTATIONAL_AGE_WEEKS'' = JUndefined
   \<or> get_prop x ''GESTATIONAL_AGE_WEEKS'' = JNull \<Longrightarrow> \<not> keeps (normalize x)"
  by (auto simp: keeps_iff normalize_def js_or_def)

lemma validateVisits_sample:
  "validateVisits (JArr sample_raw_visits) =
     Returns [\<lparr> GESTATIONAL_AGE_WEEKS = JNum (Fin 30), MATERNAL_WEIGHT = JNull,
                 FUNDAL_HEIGHT = JNull, HEMOGLOBIN_LEVEL = JNull, BLOOD_PRESSURE = JNull,
                 FETAL_HEART_RATE = JNull, COMPLICATIONS = JNull, VISIT_DATE = JNull \<rparr>,
              \<lparr> GESTATIONAL_AGE_WEEKS = JNum (Fin 12), MATERNAL_WEIGHT = JNum (Fin 60),
                 FUNDAL_HEIGHT = JNull, HEMOGLOBIN_LEVEL = JNull, BLOOD_PRESSURE = JNull,
                 FETAL_HEART_RATE = JNull, COMPLICATIONS = JNull, VISIT_DATE = JNull \<rparr>]"
proof -
  have "\<forall>x \<in> set sample_raw_visits.
          \<not> nullish x \<and> \<not> unprintable (get_prop x ''GESTATIONAL_AGE_WEEKS'')"
    by (simp add: sample_raw_visits_def nullish_def)
  then have "validateVisits (JArr sample_raw_visits) =
          Returns (filter keeps (map normalize sample_raw_visits))"
    by (rule validateVisits_returns)
  then show ?thesis
    by (simp add: sample_raw_visits_def normalize_def keeps_iff js_or_def)
qed

text \<open>
  Claim C7. The claim is that for every raw input sequence the visit normalizer returns
  the kept elements and never throws. It does throw. On the sequence whose only element
  is \<^verbatim>\<open>null\<close>, and on a sequence with a \<^verbatim>\<open>null\<close> after a valid visit, the \<^verbatim>\<open>map\<close> callback
  reads a field of \<^verbatim>\<open>null\<close> and raises a \<^verbatim>\<open>TypeError\<close>. On the sequence whose only
  element has the object \<^verbatim>\<open>{"toString": 1}\<close> as its gestational age, the comparison
  \<^verbatim>\<open>> 0\<close> of the \<^verbatim>\<open>filter\<close> callback cannot convert that object to a number and raises a
  \<^verbatim>\<open>TypeError\<close>.
\<close>

theorem validateVisits_raises:
  "validateVisits (JArr [JNull]) = Throws TypeError
   \<and> validateVisits (JArr [JObj [(''GESTATIONAL_AGE_WEEKS'', JNum (Fin 20))], JNull])
       = Throws TypeError
   \<and> validateVisits
       (JArr [JObj [(''GESTATIONAL_AGE_WEEKS'', JObj [(''toString'', JNum (Fin 1))])]])
       = Throws TypeError"
  by (simp add: validateVisits_def nullish_def normalize_def js_or_def keep_visit_def
      js_gt_def to_number_def)

subsection \<open>Outcomes and the sort\<close>

lemma array_sort_Nil: "array_sort cmp [] = []"
  by (simp add: array_sort_def)

lemma array_sort_Cons: "array_sort cmp (x # xs) = insert_sorted cmp x (array_sort cmp xs)"
  by (simp add: array_sort_def)

lemma set_insert_sorted: "set (insert_sorted cmp x ys) = insert x (set ys)"
  by (induction ys) auto

lemma set_array_sort: "set (array_sort cmp xs) = set xs"
  by (induction xs) (simp_all add: array_sort_Nil array_sort_Cons set_insert_sorted)

lemma length_insert_sorted: "length (insert_sorted cmp x ys) = Suc (length ys)"
  by (induction ys) auto

lemma length_array_sort: "length (array_sort cmp xs) = length xs"
  by (induction xs) (simp_all add: array_sort_Nil array_sort_Cons length_insert_sorted)





lemma sorted_insert_sorted:
  assumes tot: "\<And>a b. a \<in> A \<Longrightarrow> b \<in> A \<Longrightarrow> stays_before cmp a b \<or> stays_before cmp b a"
    and tr: "\<And>a b c. a \<in> A \<Longrightarrow> b \<in> A \<Longrightarrow> c \<in> A \<Longrightarrow> stays_before cmp a b \<Longrightarrow>
               stays_before cmp b c \<Longrightarrow> stays_before cmp a c"
    and x: "x \<in> A" and ys: "set ys \<subseteq> A" and s: "sorted_wrt (stays_before cmp) ys"
  shows "sorted_wrt (stays_before cmp) (insert_sorted cmp x ys)"
  using ys s
proof (induction ys)
  case Nil
  show ?case by simp
next
  case (Cons y ys)
  show ?case
  proof (cases "num_lt (Fin 0) (cmp x y)")
    case True
    then have yx: "stays_before cmp y x"
      using tot [of x y] x Cons.prems(1) by (auto simp: stays_before_def)
    have "sorted_wrt (stays_before cmp) (insert_sorted cmp x ys)"
      using Cons by simp
    moreover have "\<forall>z \<in> set (insert_sorted cmp x ys). stays_before cmp y z"
      using yx Cons.prems(2) by (auto simp: set_insert_sorted)
    ultimately show ?thesis using True by simp
  next
    case False
    then have xy: "stays_before cmp x y" by (simp add: stays_before_def)
    have "\<forall>z \<in> set ys. stays_before cmp x z"
    proof
      fix z assume z: "z \<in> set ys"
      then have "stays_before cmp y z" using Cons.prems(2) by simp
      then show "stays_before cmp x z"
        using tr [of x y z] x xy z Cons.prems(1) by auto
    qed
    then show ?thesis using False xy Cons.prems(2) by simp
  qed
qed

lemma sorted_array_sort:
  assumes tot: "\<And>a b. a \<in> A \<Longrightarrow> b \<in> A \<Longrightarrow> stays_before cmp a b \<or> stays_before cmp b a"
    and tr: "\<And>a b c. a \<in> A \<Longrightarrow> b \<in> A \<Longrightarrow> c \<in> A \<Longrightarrow> stays_before cmp a b \<Longrightarrow>
               stays_before cmp b c \<Longrightarrow> stays_before cmp a c"
    and xs: "set xs \<subseteq> A"
  shows "sorted_wrt (stays_before cmp) (array_sort cmp xs)"
  using xs
proof (induction xs)
  case Nil
  show ?case by (simp add: array_sort_Nil)
next
  case (Cons x xs)
  have "sorted_wrt (stays_before cmp) (insert_sorted cmp x (array_sort cmp xs))"
  proof (rule sorted_insert_sorted [where A = A])
    show "x \<in> A" using Cons.prems by simp
    show "set (array_sort cmp xs) \<subseteq> A" using Cons.prems by (simp add: set_array_sort)
    show "sorted_wrt (stays_before cmp) (array_sort cmp xs)" using Cons by simp
  qed (use tot tr in blast)+
  then show ?case by (simp add: array_sort_Cons)
qed

text \<open>On kept visits the comparator of gestational ages is a total preorder.\<close>

lemma compareGA_total:
  "keeps a \<Longrightarrow> keeps b \<Longrightarrow> stays_before compareGA a b \<or> stays_before compareGA b a"
  unfolding keeps_iff stays_before_def compareGA_def num_sub_def
  by (cases "number_of (GESTATIONAL_AGE_WEEKS a)"; cases "number_of (GESTATIONAL_AGE_WEEKS b)") auto

lemma compareGA_trans:
  "keeps a \<Longrightarrow> keeps b \<Longrightarrow> keeps c \<Longrightarrow> stays_before compareGA a b \<Longrightarrow>
     stays_before compareGA b c \<Longrightarrow> stays_before compareGA a c"
  unfolding keeps_iff stays_before_def compareGA_def num_sub_def
  by (cases "number_of (GESTATIONAL_AGE_WEEKS a)"; cases "number_of (GESTATIONAL_AGE_WEEKS b)";
      cases "number_of (GESTATIONAL_AGE_WEEKS c)") auto

lemma sorted_validated:
  assumes "\<forall>v \<in> set vs. keeps v"
  shows "sorted_wrt (stays_before compareGA) (array_sort compareGA vs)"
proof (rule sorted_array_sort [where A = "{v. keeps v}"])
  show "set vs \<subseteq> {v. keeps v}" using assms by auto
qed (use compareGA_total compareGA_trans in blast)+


lemma validateVisits_keeps:
  "validateVisits x = Returns vv \<Longrightarrow> \<forall>v \<in> set vv. keeps v"
  by (cases x) (auto simp: validateVisits_def and_then_Returns split: if_splits
      dest!: filter_visits_Returns)

lemma engine_keeps:
  "PredictionEngine vs p = Returns e \<Longrightarrow> \<forall>v \<in> set (validatedVisits e). keeps v"
  using validateVisits_keeps by (auto simp: PredictionEngine_def and_then_Returns)

subsection \<open>The state of the engine across calls\<close>

text \<open>On kept visits the sort does not raise.\<close>

lemma sort_visits_kept:
  "\<forall>v \<in> set vs. keeps v \<Longrightarrow> sort_visits vs = Returns (array_sort compareGA vs)"
  by (auto simp: sort_visits_def keeps_iff)

lemma sort_visits_single: "sort_visits [v] = Returns [v]"
  by (simp add: sort_visits_def array_sort_def)

lemma sort_visits_Returns: "sort_visits vs = Returns s \<Longrightarrow> s = array_sort compareGA vs"
  by (auto simp: sort_visits_def split: if_splits)

lemma sort_visits_not_Diverges: "sort_visits vs \<noteq> Diverges"
  by (simp add: sort_visits_def)

lemma generatePrediction_snd:
  assumes "\<forall>v \<in> set (validatedVisits e). keeps v"
  shows "snd (generatePrediction env e) =
           e\<lparr> validatedVisits := array_sort compareGA (validatedVisits e) \<rparr>"
  by (simp add: generatePrediction_def sort_visits_kept [OF assms] Let_def array_sort_Nil)





subsection \<open>The trend estimator\<close>

lemma numeric_ga_D: "numeric_ga v \<Longrightarrow> GESTATIONAL_AGE_WEEKS v = JNum (Fin (ga_value v)) \<and> 0 < ga_value v"
  by (auto simp: numeric_ga_def ga_value_def split: jsval.splits number.splits)

lemma numeric_metric_D:
  "numeric_metric k v \<Longrightarrow>
     (visit_field k v = JNull \<and> metric_value k v = None)
   \<or> (\<exists>x. x \<noteq> 0 \<and> visit_field k v = JNum (Fin x) \<and> metric_value k v = Some x)"
  by (auto simp: numeric_metric_def metric_value_def split: jsval.splits number.splits)

lemma insert_sorted_insort:
  assumes "numeric_ga x" "\<forall>y \<in> set ys. numeric_ga y"
  shows "insert_sorted compareGA x ys = insort_key ga_value x ys"
  using assms(2)
proof (induction ys)
  case Nil
  show ?case by simp
next
  case (Cons y ys)
  have "num_lt (Fin 0) (compareGA x y) = (\<not> ga_value x \<le> ga_value y)"
    using numeric_ga_D [OF assms(1)] numeric_ga_D [of y] Cons.prems
    by (auto simp: compareGA_def num_sub_def)
  with Cons show ?case by simp
qed

lemma numeric_ga_printable: "numeric_ga v \<Longrightarrow> \<not> unprintable (GESTATIONAL_AGE_WEEKS v)"
  by (auto simp: numeric_ga_def split: jsval.splits)

lemma numeric_metric_printable: "numeric_metric k v \<Longrightarrow> \<not> unprintable (visit_field k v)"
  by (auto simp: numeric_metric_def split: jsval.splits)

lemma array_sort_sort_key:
  "\<forall>v \<in> set vs. numeric_ga v \<Longrightarrow> array_sort compareGA vs = sort_key ga_value vs"
proof (induction vs)
  case Nil
  show ?case by (simp add: array_sort_Nil)
next
  case (Cons v vs)
  then have "array_sort compareGA vs = sort_key ga_value vs" by simp
  moreover have "\<forall>y \<in> set (sort_key ga_value vs). numeric_ga y"
    using Cons.prems by simp
  ultimately show ?case
    using Cons.prems by (simp add: array_sort_Cons insert_sorted_insort)
qed

lemma sorted_hd_le_last:
  assumes "sorted (map f s)" "s \<noteq> []"
  shows "f (hd s) \<le> f (last s)"
proof (cases s)
  case Nil
  with assms show ?thesis by simp
next
  case (Cons a t)
  show ?thesis
  proof (cases "t = []")
    case True
    with Cons show ?thesis by simp
  next
    case False
    then have "last s \<in> set t" using Cons by simp
    with assms(1) Cons show ?thesis by auto
  qed
qed

text \<open>
  Claim C8. With fewer than two validated visits the trend estimator returns 0. On
  every validated visit set with numeric gestational ages and a numeric metric field
  it returns what the specification words: 0 when the first or last value of the metric
  (after sorting a copy ascending by gestational age) is missing or when the
  gestational-age span between the first and last sorted visits is zero, and otherwise
  (last - first) / (lastGA - firstGA).
\<close>

theorem calculateTrend_spec:
  "(length (validatedVisits e) < 2 \<longrightarrow> calculateTrend e k = Returns (Fin 0))
   \<and> (numeric_visits (validatedVisits e) k \<longrightarrow>
        calculateTrend e k = Returns (Fin (trend_spec (validatedVisits e) k)))"
proof (intro conjI impI)
  show "calculateTrend e k = Returns (Fin 0)" if "length (validatedVisits e) < 2"
    using that by (simp add: calculateTrend_def)
next
  assume nv: "numeric_visits (validatedVisits e) k"
  let ?vs = "validatedVisits e"
  show "calculateTrend e k = Returns (Fin (trend_spec ?vs k))"
  proof (cases "length ?vs < 2")
    case True
    then show ?thesis by (simp add: calculateTrend_def trend_spec_def)
  next
    case False
    define s where "s = sort_key ga_value ?vs"
    have ga: "\<forall>v \<in> set ?vs. numeric_ga v"
      using nv by (simp add: numeric_visits_def)
    have "\<not> (\<exists>v \<in> set ?vs. unprintable (GESTATIONAL_AGE_WEEKS v))"
      using ga numeric_ga_printable by blast
    then have srt: "sort_visits ?vs = Returns s"
      unfolding s_def by (simp add: sort_visits_def array_sort_sort_key [OF ga])
    have ne: "s \<noteq> []"
      using False unfolding s_def by (cases ?vs) auto
    have mem: "hd s \<in> set ?vs" "last s \<in> set ?vs"
      using ne hd_in_set [of s] last_in_set [of s] unfolding s_def by simp_all
    have le: "ga_value (hd s) \<le> ga_value (last s)"
      using sorted_hd_le_last [of ga_value s] ne unfolding s_def by simp
    note gh = numeric_ga_D [of "hd s"] and gl = numeric_ga_D [of "last s"]
    have mh: "numeric_metric k (hd s)" and ml: "numeric_metric k (last s)"
      using nv mem by (simp_all add: numeric_visits_def)
    have pr: "\<not> unprintable (visit_field k (hd s))" "\<not> unprintable (visit_field k (last s))"
      using mh ml by (simp_all add: numeric_metric_printable)
    have code: "calculateTrend e k = Returns
        (if \<not> truthy (visit_field k (hd s)) \<or> \<not> truthy (visit_field k (last s)) then Fin 0
         else if 0 < ga_value (last s) - ga_value (hd s)
              then num_div (num_sub (number_of (visit_field k (last s)))
                                    (number_of (visit_field k (hd s))))
                           (Fin (ga_value (last s) - ga_value (hd s)))
              else Fin 0)"
      using False gh gl ga mem pr
      by (simp add: calculateTrend_def srt Let_def js_sub_Returns num_sub_def)
    have spec: "trend_spec ?vs k =
        (case (metric_value k (hd s), metric_value k (last s)) of
          (Some a, Some b) \<Rightarrow>
            if ga_value (last s) - ga_value (hd s) = 0 then 0
            else (b - a) / (ga_value (last s) - ga_value (hd s))
        | _ \<Rightarrow> 0)"
      using False unfolding trend_spec_def Let_def s_def [symmetric] by simp
    show ?thesis
      unfolding code spec
      using numeric_metric_D [OF mh] numeric_metric_D [OF ml] le
      by (auto simp: num_sub_def)
  qed
qed

theorem calculateTrend_spec_witness:
  "calculateTrend trend_engine ''MATERNAL_WEIGHT'' = Returns (Fin 1)
   \<and> calculateTrend same_week_engine ''MATERNAL_WEIGHT'' = Returns (Fin 0)
   \<and> calculateTrend empty_engine ''MATERNAL_WEIGHT'' = Returns (Fin 0)"
proof -
  have n2: "numeric_visits (validatedVisits same_week_engine) ''MATERNAL_WEIGHT''"
    by (simp add: numeric_visits_def same_week_engine_def numeric_ga_def numeric_metric_def
        visit_field_def visit_at_def)
  have t2: "trend_spec (validatedVisits same_week_engine) ''MATERNAL_WEIGHT'' = 0"
    by (simp add: trend_spec_def same_week_engine_def ga_value_def metric_value_def
        visit_field_def visit_at_def)
  have n: "numeric_visits (validatedVisits trend_engine) ''MATERNAL_WEIGHT''"
    by (simp add: numeric_visits_def trend_engine_def numeric_ga_def numeric_metric_def
        visit_field_def visit_at_def)
  have t: "trend_spec (validatedVisits trend_engine) ''MATERNAL_WEIGHT'' = 1"
    by (simp add: trend_spec_def trend_engine_def ga_value_def metric_value_def
        visit_field_def visit_at_def)
  have l: "length (validatedVisits empty_engine) < 2"
    by (simp add: empty_engine_def)
  from calculateTrend_spec [of trend_engine "''MATERNAL_WEIGHT''"]
    calculateTrend_spec [of same_week_engine "''MATERNAL_WEIGHT''"]
    calculateTrend_spec [of empty_engine "''MATERNAL_WEIGHT''"] n t n2 t2 l
  show ?thesis by simp
qed

subsection \<open>The progression loop returns on numbers\<close>

lemma roundValue_JNum: "\<exists>n. roundValue (JNum m) d = Returns n"
  by (simp add: roundValue_def)

lemma js_add_returns:
  "\<not> unprintable a \<Longrightarrow> \<not> unprintable b \<Longrightarrow>
   \<exists>v. js_add pr a b = Returns v \<and> \<not> unprintable v"
  by (simp add: js_add_def to_string_def to_number_def)

lemma projectWeek_returns:
  assumes "\<not> stringy sw" "\<not> stringy (b_weight base)"
    and "\<not> unprintable (b_hb base)" "\<not> unprintable (b_fhr base)"
  shows "\<exists>p'. projectWeek env sw base i p = Returns p'
           \<and> weeks_of p' = map (\<lambda>ws. ws @ [JNum (num_add (number_of sw) (Fin (real i)))]) (weeks_of p)"
proof -
  let ?wk = "JNum (num_add (number_of sw) (Fin (real i)))"
  let ?r0 = "rand env (4 * (i - 1) + 0) * 2 - 1"
  have wk: "js_add (num_str env) sw (JNum (Fin (real i))) = Returns ?wk"
    using assms(1) by (simp add: js_add_numbers)
  have w0: "js_add (num_str env) (b_weight base) (JNum (Fin (real i * 0.35))) =
              Returns (JNum (num_add (number_of (b_weight base)) (Fin (real i * 0.35))))"
    using assms(2) by (simp add: js_add_numbers)
  obtain w where w: "roundValue (JNum (num_add (number_of (b_weight base)) (Fin (real i * 0.35)))) 1
                       = Returns w"
    using roundValue_JNum by blast
  have f0: "js_add (num_str env) ?wk (JNum (Fin ?r0)) =
              Returns (JNum (num_add (number_of ?wk) (Fin ?r0)))"
    by (simp add: js_add_numbers)
  obtain f where f: "roundValue (JNum (num_add (number_of ?wk) (Fin ?r0))) 1 = Returns f"
    using roundValue_JNum by blast
  have h0: "js_sub (b_hb base) (JNum (Fin (real i * 0.05))) =
              Returns (num_sub (number_of (b_hb base)) (Fin (real i * 0.05)))"
    using assms(3) by (simp add: js_sub_Returns)
  obtain h where h: "roundValue (JNum (math_max (Fin 10.5)
                       (num_sub (number_of (b_hb base)) (Fin (real i * 0.05))))) 1 = Returns h"
    using roundValue_JNum by blast
  obtain x0 where x0: "js_add (num_str env) (b_fhr base) (JNum (Fin (sine env (real i / 3) * 2)))
                         = Returns x0" and px0: "\<not> unprintable x0"
    using js_add_returns [OF assms(4), of "JNum (Fin (sine env (real i / 3) * 2))"] by auto
  obtain x1 where x1: "js_add (num_str env) x0 (JNum (Fin (rand env (4 * (i - 1) + 3) * 3 - 1.5)))
                         = Returns x1" and px1: "\<not> unprintable x1"
    using js_add_returns [OF px0, of "JNum (Fin (rand env (4 * (i - 1) + 3) * 3 - 1.5))"] by auto
  have n1: "to_number x1 = Returns (number_of x1)"
    using px1 by (rule to_number_Returns)
  show ?thesis
    unfolding projectWeek_def Let_def wk w0 and_then.simps w f0 f h0 h x0 x1 n1
    by (simp add: weeks_of_def)
qed

lemma project_loop_returns:
  assumes "\<not> stringy sw" "\<not> stringy (b_weight base)"
    and "\<not> unprintable (b_hb base)" "\<not> unprintable (b_fhr base)"
  shows "\<exists>p'. project_loop env sw base n i p = Returns p'
           \<and> weeks_of p' = map (\<lambda>ws. ws @ map (\<lambda>j. JNum (num_add (number_of sw) (Fin (real j)))) [i ..< i + n]) (weeks_of p)"
proof (induction n arbitrary: i p)
  case 0
  show ?case by (simp add: weeks_of_def)
next
  case (Suc n)
  obtain p1 where p1: "projectWeek env sw base i p = Returns p1"
    and w1: "weeks_of p1 = map (\<lambda>ws. ws @ [JNum (num_add (number_of sw) (Fin (real i)))]) (weeks_of p)"
    using projectWeek_returns [OF assms] by blast
  obtain p2 where p2: "project_loop env sw base n (Suc i) p1 = Returns p2"
    and w2: "weeks_of p2 = map (\<lambda>ws. ws @ map (\<lambda>j. JNum (num_add (number_of sw) (Fin (real j)))) [Suc i ..< Suc i + n]) (weeks_of p1)"
    using Suc.IH by blast
  have "[i ..< i + Suc n] = i # [Suc i ..< Suc i + n]"
    by (simp add: upt_rec)
  then show ?case
    using p1 p2 w1 w2 by (simp add: comp_def)
qed

lemma weeks_of_no_series: "weeks_of no_series = replicate 6 []"
  by (simp add: weeks_of_def no_series_def numeral_eq_Suc)

lemma generateProgressionData_returns:
  assumes "\<not> stringy sw" "\<not> stringy (b_weight base)"
    and "\<not> unprintable (b_hb base)" "\<not> unprintable (b_fhr base)"
  shows "\<exists>p. generateProgressionData env sw (Fin w) base = Returns p
           \<and> weeks_of p = replicate 6 (map (\<lambda>j. JNum (num_add (number_of sw) (Fin (real j))))
                                            [1 ..< 1 + nat \<lfloor>w\<rfloor>])"
  using project_loop_returns [OF assms, of env "nat \<lfloor>w\<rfloor>" 1 no_series]
  by (auto simp: generateProgressionData_def weeks_of_no_series numeral_eq_Suc)

lemma map_shift_upt: "map (\<lambda>j. g (j + k)) [a ..< b] = map g [a + k ..< b + k]"
  by (induction b) auto

lemma fallback_weeks:
  "map (\<lambda>j. JNum (num_add (number_of (JNum (Fin 12))) (Fin (real j)))) [1 ..< 29]
     = map (\<lambda>i. JNum (Fin (real i))) [13 ..< 41]"
proof -
  have "map (\<lambda>j. JNum (num_add (number_of (JNum (Fin 12))) (Fin (real j)))) [1 ..< 29]
        = map (\<lambda>j. (\<lambda>i. JNum (Fin (real i))) (j + 12)) [1 ..< 29]"
    by (simp add: add.commute)
  also have "\<dots> = map (\<lambda>i. JNum (Fin (real i))) [1 + 12 ..< 29 + 12]"
    by (rule map_shift_upt)
  finally show ?thesis
    by (simp del: upt.simps)
qed

lemma getFallbackPrediction_no_data:
  "\<exists>pg. getFallbackPrediction env False = Returns (fixed_fallback env (Some pg))
        \<and> weeks_of pg = replicate 6 (map (\<lambda>i. JNum (Fin (real i))) [13 ..< 41])"
proof -
  let ?base = "\<lparr> b_weight = JNum (Fin 60), b_fundal = JNum (Fin 12), b_hb = JNum (Fin 11.5),
                   b_fhr = JNum (Fin 145), b_bp = \<lparr> systolic = Fin 115, diastolic = Fin 70 \<rparr> \<rparr>"
  obtain pg where pg: "generateProgressionData env (JNum (Fin 12)) (Fin 28) ?base = Returns pg"
    and w: "weeks_of pg = replicate 6 (map (\<lambda>j. JNum (num_add (number_of (JNum (Fin 12))) (Fin (real j))))
                                            [1 ..< 1 + nat \<lfloor>28 :: real\<rfloor>])"
    using generateProgressionData_returns [of "JNum (Fin 12)" ?base env 28] by auto
  have n: "1 + nat \<lfloor>28 :: real\<rfloor> = 29" by simp
  have "getFallbackPrediction env False = Returns (fixed_fallback env (Some pg))"
    using pg by (simp add: getFallbackPrediction_def fixed_fallback_def fallback_summary_def
        num_sub_def Let_def)
  moreover have "weeks_of pg = replicate 6 (map (\<lambda>i. JNum (Fin (real i))) [13 ..< 41])"
    unfolding w n fallback_weeks ..
  ultimately show ?thesis by blast
qed

lemma getFallbackPrediction_at_term:
  "getFallbackPrediction env True = Returns (fixed_fallback env None)"
  by (simp add: getFallbackPrediction_def fixed_fallback_def fallback_summary_def Let_def)

lemma getFallbackPrediction_Returns:
  "getFallbackPrediction env b = Returns r \<Longrightarrow> \<exists>pg. r = fixed_fallback env pg"
  by (auto simp: getFallbackPrediction_def fixed_fallback_def fallback_summary_def
      and_then_Returns Let_def split: if_splits)

subsection \<open>The branches of generatePrediction\<close>

lemma weeks_le_zero: "num_le (math_max (Fin 0) (num_sub (Fin 40) n)) (Fin 0) = num_le (Fin 40) n"
  by (cases n) (auto simp: math_max_def num_sub_def num_le_def)

lemma weeks_finite:
  "num_lt (Fin 0) n \<Longrightarrow> \<exists>x. math_max (Fin 0) (num_sub (Fin 40) n) = Fin x"
  by (cases n) (auto simp: math_max_def num_sub_def)

lemma sorted_wrt_last:
  "sorted_wrt P s \<Longrightarrow> v \<in> set s \<Longrightarrow> v = last s \<or> P v (last s)"
  by (induction s) auto

lemma stays_before_at_term:
  "keeps a \<Longrightarrow> keeps b \<Longrightarrow> stays_before compareGA a b \<Longrightarrow>
     num_le (Fin 40) (number_of (GESTATIONAL_AGE_WEEKS a)) \<Longrightarrow>
     num_le (Fin 40) (number_of (GESTATIONAL_AGE_WEEKS b))"
  unfolding keeps_iff stays_before_def compareGA_def num_sub_def num_le_def
  by (cases "number_of (GESTATIONAL_AGE_WEEKS a)"; cases "number_of (GESTATIONAL_AGE_WEEKS b)") auto

lemma last_sorted_kept:
  assumes k: "\<forall>v \<in> set vs. keeps v" and ne: "vs \<noteq> []"
  shows "last (array_sort compareGA vs) \<in> set vs" "keeps (last (array_sort compareGA vs))"
    "array_sort compareGA vs \<noteq> []"
proof -
  let ?s = "array_sort compareGA vs"
  show sne: "?s \<noteq> []"
    using ne length_array_sort [of compareGA vs] by (cases ?s) auto
  then show lm: "last ?s \<in> set vs"
    using last_in_set [of ?s] by (simp add: set_array_sort)
  then show "keeps (last ?s)" using k by blast
qed

lemma latest_at_term:
  assumes k: "\<forall>v \<in> set vs. keeps v" and ne: "vs \<noteq> []"
  shows "num_le (Fin 40) (number_of (GESTATIONAL_AGE_WEEKS (last (array_sort compareGA vs))))
         = at_term vs"
proof -
  let ?s = "array_sort compareGA vs"
  note lm = last_sorted_kept(1) [OF k ne]
  show ?thesis
  proof
    assume "num_le (Fin 40) (number_of (GESTATIONAL_AGE_WEEKS (last ?s)))"
    with lm show "at_term vs" unfolding at_term_def by blast
  next
    assume "at_term vs"
    then obtain v where v: "v \<in> set vs"
      and v40: "num_le (Fin 40) (number_of (GESTATIONAL_AGE_WEEKS v))"
      unfolding at_term_def by blast
    have "v = last ?s \<or> stays_before compareGA v (last ?s)"
      using sorted_wrt_last [OF sorted_validated [OF k]] v by (simp add: set_array_sort)
    then show "num_le (Fin 40) (number_of (GESTATIONAL_AGE_WEEKS (last ?s)))"
      using stays_before_at_term [of v "last ?s"] k v lm v40 by auto
  qed
qed

lemma gp_fst_empty:
  "validatedVisits e = [] \<Longrightarrow> fst (generatePrediction env e) = getFallbackPrediction env False"
  by (simp add: generatePrediction_def)

text \<open>The call once the sort has returned \<open>s\<close> and the latest gestational age converts.\<close>

lemma gp_fst_sorted:
  assumes "validatedVisits e \<noteq> []" "sort_visits (validatedVisits e) = Returns s"
    and "\<not> unprintable (GESTATIONAL_AGE_WEEKS (last s))"
  defines "ga \<equiv> GESTATIONAL_AGE_WEEKS (last s)"
  defines "w \<equiv> math_max (Fin 0) (num_sub (Fin 40) (number_of ga))"
  shows "fst (generatePrediction env e) =
     (if num_le (Fin 40) (number_of ga) then getFallbackPrediction env True
      else and_then (calculateRiskScores (e\<lparr> validatedVisits := s \<rparr>)) (\<lambda>rs.
             and_then (generateProgression env (e\<lparr> validatedVisits := s \<rparr>) ga w) (\<lambda>pg.
               Returns (pipeline_result env (e\<lparr> validatedVisits := s \<rparr>) ga w rs pg))))"
  using assms(1,3) unfolding ga_def w_def
  by (simp add: generatePrediction_def assms(2) Let_def js_sub_Returns weeks_le_zero
      pipeline_result_def)

lemma gp_fst_term:
  assumes "\<forall>v \<in> set (validatedVisits e). keeps v" "validatedVisits e \<noteq> []"
    and "num_le (Fin 40) (number_of (GESTATIONAL_AGE_WEEKS (last (array_sort compareGA (validatedVisits e)))))"
  shows "fst (generatePrediction env e) = getFallbackPrediction env True"
  using gp_fst_sorted [OF assms(2) sort_visits_kept [OF assms(1)], of env]
    last_sorted_kept(2) [OF assms(1,2)] assms(3)
  by (simp add: keeps_iff)

lemma gp_fst_normal:
  assumes "\<forall>v \<in> set (validatedVisits e). keeps v" "validatedVisits e \<noteq> []"
    and "\<not> num_le (Fin 40) (number_of (GESTATIONAL_AGE_WEEKS (last (array_sort compareGA (validatedVisits e)))))"
  defines "e' \<equiv> e\<lparr> validatedVisits := array_sort compareGA (validatedVisits e) \<rparr>"
  defines "ga \<equiv> GESTATIONAL_AGE_WEEKS (last (array_sort compareGA (validatedVisits e)))"
  defines "w \<equiv> math_max (Fin 0) (num_sub (Fin 40) (number_of ga))"
  shows "fst (generatePrediction env e) =
     and_then (calculateRiskScores e') (\<lambda>rs.
       and_then (generateProgression env e' ga w) (\<lambda>pg.
         Returns (pipeline_result env e' ga w rs pg)))"
  unfolding e'_def ga_def w_def
  using gp_fst_sorted [OF assms(2) sort_visits_kept [OF assms(1)], of env]
    last_sorted_kept(2) [OF assms(1,2)] assms(3)
  by (simp add: keeps_iff)

text \<open>Whatever the state of the engine, a returned result is a fallback or a pipeline result.\<close>

lemma generatePrediction_Returns:
  assumes "fst (generatePrediction env e) = Returns r"
  shows "(\<exists>b. getFallbackPrediction env b = Returns r)
       \<or> (\<exists>e' rs. calculateRiskScores e' = Returns rs
             \<and> deliveryType r = calculateDeliveryTypeProbabilities rs
             \<and> deliveryMode r = calculateDeliveryModeProbabilities e' rs)"
proof (cases "validatedVisits e = []")
  case True
  with assms show ?thesis by (auto simp: gp_fst_empty)
next
  case ne: False
  show ?thesis
  proof (cases "sort_visits (validatedVisits e)")
    case (Returns s)
    show ?thesis
    proof (cases "unprintable (GESTATIONAL_AGE_WEEKS (last s))")
      case True
      with assms ne Returns show ?thesis
        by (simp add: generatePrediction_def Let_def js_sub_Throws)
    next
      case False
      let ?e' = "e\<lparr> validatedVisits := s \<rparr>"
      show ?thesis
      proof (cases "num_le (Fin 40) (number_of (GESTATIONAL_AGE_WEEKS (last s)))")
        case True
        with assms have "getFallbackPrediction env True = Returns r"
          unfolding gp_fst_sorted [OF ne Returns False] by simp
        then show ?thesis by blast
      next
        case nt: False
        with assms obtain rs pg where rs: "calculateRiskScores ?e' = Returns rs"
          and r: "r = pipeline_result env ?e' (GESTATIONAL_AGE_WEEKS (last s))
                    (math_max (Fin 0) (num_sub (Fin 40) (number_of (GESTATIONAL_AGE_WEEKS (last s)))))
                    rs pg"
          unfolding gp_fst_sorted [OF ne Returns False] by (auto simp: and_then_Returns)
        have "deliveryType r = calculateDeliveryTypeProbabilities rs
              \<and> deliveryMode r = calculateDeliveryModeProbabilities ?e' rs"
          unfolding r by (simp add: pipeline_result_def)
        with rs show ?thesis by blast
      qed
    qed
  next
    case (Throws x)
    with assms ne show ?thesis by (simp add: generatePrediction_def)
  next
    case Diverges
    with assms ne show ?thesis by (simp add: generatePrediction_def)
  qed
qed

subsection \<open>Typed input returns\<close>

lemma hasPretermHistory_returns:
  assumes "\<not> unprintable (get_prop (patient e) ''PARITY'')"
    and "case get_prop (patient e) ''MEDICAL_HISTORY'' of
             JUndefined \<Rightarrow> True | JNull \<Rightarrow> True | JStr s \<Rightarrow> True | _ \<Rightarrow> False"
  shows "returns (hasPretermHistory e)"
  using assms
  by (auto simp: hasPretermHistory_def Let_def js_gt_Returns returns_Returns split: jsval.splits)

lemma anemiaScore_returns:
  "\<not> unprintable (HEMOGLOBIN_LEVEL v) \<Longrightarrow> returns (anemiaScore v)"
  by (simp add: anemiaScore_def Let_def js_lt_Returns returns_Returns)

lemma hypertensionScore_returns: "\<exists>h. hypertensionScore v = Returns h"
proof (cases "truthy (BLOOD_PRESSURE v)")
  case True
  obtain bp where "parseBloodPressure (BLOOD_PRESSURE v) = Returns bp"
    using parseBloodPressure_returns by blast
  with True show ?thesis by (simp add: hypertensionScore_def)
next
  case False
  then show ?thesis by (simp add: hypertensionScore_def)
qed

lemma growthScore_returns:
  "\<not> unprintable (FUNDAL_HEIGHT v) \<Longrightarrow> \<not> unprintable (GESTATIONAL_AGE_WEEKS v) \<Longrightarrow>
   returns (growthScore v)"
  by (simp add: growthScore_def Let_def js_sub_Returns returns_Returns)

lemma pretermScore_returns:
  assumes "\<not> unprintable (GESTATIONAL_AGE_WEEKS v)" "hasPretermHistory e = Returns b"
  shows "returns (pretermScore e v)"
  using assms by (simp add: pretermScore_def Let_def js_lt_Returns returns_Returns)

lemma maternalAgeScore_returns:
  assumes "\<not> unprintable (get_prop (patient e) ''AGE'')"
  shows "returns (maternalAgeScore e)"
proof -
  have "\<not> unprintable (js_or (get_prop (patient e) ''AGE'') (JNum (Fin 25)))"
    using assms by (simp add: js_or_def)
  then show ?thesis
    by (simp add: maternalAgeScore_def Let_def js_lt_Returns js_gt_Returns returns_Returns)
qed

lemma bmiScore_returns:
  "\<not> unprintable (get_prop (patient e) ''BMI_VALUE'') \<Longrightarrow> returns (bmiScore e)"
  by (simp add: bmiScore_def Let_def js_lt_Returns js_gt_Returns returns_Returns)

lemma calculateRiskScores_returns:
  assumes ne: "validatedVisits e \<noteq> []"
    and v: "\<not> unprintable (GESTATIONAL_AGE_WEEKS (last (validatedVisits e)))"
      "\<not> unprintable (FUNDAL_HEIGHT (last (validatedVisits e)))"
      "\<not> unprintable (HEMOGLOBIN_LEVEL (last (validatedVisits e)))"
    and p: "typed_patient (patient e)"
  shows "\<exists>rs. calculateRiskScores e = Returns rs"
proof -
  let ?v = "last (validatedVisits e)"
  obtain a where a: "anemiaScore ?v = Returns a"
    using anemiaScore_returns [OF v(3)] by (auto simp: returns_iff)
  obtain h where h: "hypertensionScore ?v = Returns h"
    using hypertensionScore_returns by blast
  obtain g where g: "growthScore ?v = Returns g"
    using growthScore_returns [OF v(2,1)] by (auto simp: returns_iff)
  obtain b where b: "hasPretermHistory e = Returns b"
    using hasPretermHistory_returns [of e] p by (auto simp: typed_patient_def returns_iff)
  obtain pt where pt: "pretermScore e ?v = Returns pt"
    using pretermScore_returns [OF v(1) b] by (auto simp: returns_iff)
  obtain m where m: "maternalAgeScore e = Returns m"
    using maternalAgeScore_returns [of e] p by (auto simp: typed_patient_def returns_iff)
  obtain bm where bm: "bmiScore e = Returns bm"
    using bmiScore_returns [of e] p by (auto simp: typed_patient_def returns_iff)
  show ?thesis
    using ne by (simp add: calculateRiskScores_def Let_def a h g pt m bm)
qed

lemma calculateTrend_returns:
  assumes "\<forall>v \<in> set (validatedVisits e).
             \<not> unprintable (GESTATIONAL_AGE_WEEKS v) \<and> \<not> unprintable (visit_field k v)"
  shows "\<exists>t. calculateTrend e k = Returns t"
proof (cases "length (validatedVisits e) < 2")
  case True
  then show ?thesis by (simp add: calculateTrend_def)
next
  case False
  let ?s = "array_sort compareGA (validatedVisits e)"
  have srt: "sort_visits (validatedVisits e) = Returns ?s"
    using assms by (auto simp: sort_visits_def)
  have "?s \<noteq> []"
    using False length_array_sort [of compareGA "validatedVisits e"] by (cases ?s) auto
  then have "hd ?s \<in> set (validatedVisits e)" "last ?s \<in> set (validatedVisits e)"
    using hd_in_set [of ?s] last_in_set [of ?s] by (simp_all add: set_array_sort)
  then have "\<not> unprintable (GESTATIONAL_AGE_WEEKS (hd ?s))"
    "\<not> unprintable (GESTATIONAL_AGE_WEEKS (last ?s))"
    "\<not> unprintable (visit_field k (hd ?s))" "\<not> unprintable (visit_field k (last ?s))"
    using assms by blast+
  then show ?thesis
    using False by (simp add: calculateTrend_def srt Let_def js_sub_Returns)
qed

lemma generateProgression_returns:
  assumes ne: "validatedVisits e \<noteq> []" and ga: "\<not> stringy ga"
    and t: "list_all typed_visit (validatedVisits e)"
  shows "\<exists>pg. generateProgression env e ga (Fin x) = Returns pg"
proof -
  let ?v = "last (validatedVisits e)"
  obtain bp where bp: "parseBloodPressure (BLOOD_PRESSURE ?v) = Returns bp"
    using parseBloodPressure_returns by blast
  let ?base = "\<lparr> b_weight = js_or (MATERNAL_WEIGHT ?v) (JNum (Fin 60)),
                   b_fundal = js_or (FUNDAL_HEIGHT ?v) ga,
                   b_hb = js_or (HEMOGLOBIN_LEVEL ?v) (JNum (Fin 11.5)),
                   b_fhr = js_or (FETAL_HEART_RATE ?v) (JNum (Fin 145)),
                   b_bp = bp \<rparr>"
  have all: "\<forall>v \<in> set (validatedVisits e). typed_visit v"
    using t by (simp add: list_all_iff)
  then have tv: "typed_visit ?v"
    using ne by simp
  have base: "\<not> stringy (b_weight ?base)" "\<not> unprintable (b_hb ?base)"
    "\<not> unprintable (b_fhr ?base)"
    using tv by (simp_all add: typed_visit_def js_or_def)
  have "\<forall>v \<in> set (validatedVisits e).
          \<not> unprintable (GESTATIONAL_AGE_WEEKS v) \<and> \<not> unprintable (visit_field ''MATERNAL_WEIGHT'' v)"
    using all unprintable_stringy by (auto simp: typed_visit_def visit_field_def)
  then obtain wt where wt: "calculateTrend e ''MATERNAL_WEIGHT'' = Returns wt"
    using calculateTrend_returns by blast
  have "\<forall>v \<in> set (validatedVisits e).
          \<not> unprintable (GESTATIONAL_AGE_WEEKS v) \<and> \<not> unprintable (visit_field ''HEMOGLOBIN_LEVEL'' v)"
    using all unprintable_stringy by (auto simp: typed_visit_def visit_field_def)
  then obtain ht where ht: "calculateTrend e ''HEMOGLOBIN_LEVEL'' = Returns ht"
    using calculateTrend_returns by blast
  obtain pr where "generateProgressionData env ga (Fin x) ?base = Returns pr"
    using generateProgressionData_returns [OF ga base, of env x] by blast
  then show ?thesis
    using ne bp wt ht by (simp add: generateProgression_def Let_def)
qed

lemma generatePrediction_returns:
  assumes k: "\<forall>v \<in> set (validatedVisits e). keeps v" and wt: "well_typed e"
  shows "\<exists>r. fst (generatePrediction env e) = Returns r"
proof (cases "validatedVisits e = []")
  case True
  then show ?thesis
    using getFallbackPrediction_no_data [of env] by (auto simp: gp_fst_empty)
next
  case ne: False
  let ?s = "array_sort compareGA (validatedVisits e)"
  let ?e' = "e\<lparr> validatedVisits := ?s \<rparr>"
  let ?ga = "GESTATIONAL_AGE_WEEKS (last ?s)"
  show ?thesis
  proof (cases "num_le (Fin 40) (number_of ?ga)")
    case True
    then show ?thesis
      using k ne by (simp add: gp_fst_term getFallbackPrediction_at_term)
  next
    case False
    note lm = last_sorted_kept [OF k ne]
    have "num_lt (Fin 0) (number_of ?ga)"
      using lm(2) by (simp add: keeps_iff)
    then obtain x where x: "math_max (Fin 0) (num_sub (Fin 40) (number_of ?ga)) = Fin x"
      using weeks_finite by blast
    have all: "list_all typed_visit ?s"
      using wt by (simp add: well_typed_def list_all_iff set_array_sort)
    then have tv: "typed_visit (last ?s)"
      using lm(3) by (simp add: list_all_iff)
    have pv: "\<not> unprintable ?ga" "\<not> unprintable (FUNDAL_HEIGHT (last ?s))"
      "\<not> unprintable (HEMOGLOBIN_LEVEL (last ?s))" "\<not> stringy ?ga"
      using tv unprintable_stringy [of ?ga] by (auto simp: typed_visit_def)
    obtain rs where rs: "calculateRiskScores ?e' = Returns rs"
      using calculateRiskScores_returns [of ?e'] lm(3) pv wt by (auto simp: well_typed_def)
    obtain pg where pg: "generateProgression env ?e' ?ga (Fin x) = Returns pg"
      using generateProgression_returns [of ?e' ?ga env x] lm(3) pv(4) all by auto
    show ?thesis
      unfolding gp_fst_normal [OF k ne False] x using rs pg by simp
  qed
qed

lemma empty_engine_built: "PredictionEngine (JArr []) (JObj []) = Returns empty_engine"
  by (simp add: PredictionEngine_def validateVisits_def js_or_def empty_engine_def)

lemma term_engine_built:
  "PredictionEngine (visits term_engine) (patient term_engine) = Returns term_engine"
  by (simp add: PredictionEngine_def term_engine_def validateVisits_def
      js_or_def nullish_def normalize_def keep_visit_def js_gt_def to_number_def visit_at_def)

lemma late_engine_built:
  "PredictionEngine (visits late_engine) (patient late_engine) = Returns late_engine"
  by (simp add: PredictionEngine_def late_engine_def validateVisits_def
      js_or_def nullish_def normalize_def keep_visit_def js_gt_def to_number_def visit_at_def)

lemma late_engine_facts:
  "validatedVisits late_engine \<noteq> []" "\<not> at_term (validatedVisits late_engine)"
  "well_typed late_engine"
  by (simp_all add: late_engine_def at_term_def well_typed_def typed_visit_def
      typed_patient_def visit_at_def num_le_def)

subsection \<open>A call returns or raises\<close>

text \<open>On a finite bound the loop ends, so a call returns or raises a \<^verbatim>\<open>TypeError\<close>.\<close>

lemma and_then_not_Diverges:
  assumes "m \<noteq> Diverges" "\<And>a. m = Returns a \<Longrightarrow> f a \<noteq> Diverges"
  shows "and_then m f \<noteq> Diverges"
  using assms by (cases m) auto

lemma outcome_cases: "m \<noteq> Diverges \<Longrightarrow> (\<exists>r. m = Returns r) \<or> m = Throws TypeError"
  by (cases m) (auto intro: exn.exhaust)

lemma to_number_not_Diverges: "to_number v \<noteq> Diverges"
  by (simp add: to_number_def)

lemma js_lt_not_Diverges: "js_lt v c \<noteq> Diverges"
  by (simp add: js_lt_def to_number_def)

lemma js_gt_not_Diverges: "js_gt v c \<noteq> Diverges"
  by (simp add: js_gt_def to_number_def)

lemma js_sub_not_Diverges: "js_sub a b \<noteq> Diverges"
  by (simp add: js_sub_def to_number_def)

lemma roundValue_not_Diverges: "roundValue v d \<noteq> Diverges"
  by (cases v) (auto simp: roundValue_def)

lemmas not_Diverges =
  to_number_not_Diverges js_lt_not_Diverges js_gt_not_Diverges js_sub_not_Diverges
  js_add_not_Diverges roundValue_not_Diverges sort_visits_not_Diverges

lemma projectWeek_not_Diverges: "projectWeek env sw base i p \<noteq> Diverges"
  by (simp add: projectWeek_def Let_def and_then_Diverges not_Diverges)

lemma project_loop_not_Diverges: "project_loop env sw base n i p \<noteq> Diverges"
proof (induction n arbitrary: i p)
  case 0
  show ?case by simp
next
  case (Suc n)
  show ?case
    by (simp only: project_loop.simps) (intro and_then_not_Diverges projectWeek_not_Diverges Suc)
qed

lemma calculateTrend_not_Diverges: "calculateTrend e k \<noteq> Diverges"
  by (simp add: calculateTrend_def Let_def and_then_Diverges not_Diverges)

lemma generateProgression_not_Diverges: "generateProgression env e ga (Fin x) \<noteq> Diverges"
proof (cases "validatedVisits e = []")
  case True
  then show ?thesis by (simp add: generateProgression_def)
next
  case False
  obtain bp where bp: "parseBloodPressure (BLOOD_PRESSURE (last (validatedVisits e))) = Returns bp"
    using parseBloodPressure_returns by blast
  show ?thesis
    using False unfolding generateProgression_def Let_def bp
    by (simp add: generateProgressionData_def and_then_Diverges calculateTrend_not_Diverges
        project_loop_not_Diverges)
qed

lemma hasPretermHistory_not_Diverges: "hasPretermHistory e \<noteq> Diverges"
  by (auto simp: hasPretermHistory_def Let_def and_then_Diverges not_Diverges split: jsval.splits)

lemma anemiaScore_not_Diverges: "anemiaScore v \<noteq> Diverges"
  by (simp add: anemiaScore_def Let_def and_then_Diverges not_Diverges)

lemma growthScore_not_Diverges: "growthScore v \<noteq> Diverges"
  by (simp add: growthScore_def Let_def and_then_Diverges not_Diverges)

lemma pretermScore_not_Diverges: "pretermScore e v \<noteq> Diverges"
  by (simp add: pretermScore_def Let_def and_then_Diverges not_Diverges
      hasPretermHistory_not_Diverges)

lemma maternalAgeScore_not_Diverges: "maternalAgeScore e \<noteq> Diverges"
  by (simp add: maternalAgeScore_def Let_def and_then_Diverges not_Diverges)

lemma bmiScore_not_Diverges: "bmiScore e \<noteq> Diverges"
  by (simp add: bmiScore_def Let_def and_then_Diverges not_Diverges)

lemma calculateRiskScores_not_Diverges: "calculateRiskScores e \<noteq> Diverges"
proof (cases "validatedVisits e = []")
  case True
  then show ?thesis by (simp add: calculateRiskScores_def)
next
  case False
  obtain h where h: "hypertensionScore (last (validatedVisits e)) = Returns h"
    using hypertensionScore_returns by blast
  show ?thesis
    using False unfolding calculateRiskScores_def Let_def
    by (simp add: and_then_Diverges h anemiaScore_not_Diverges growthScore_not_Diverges
        pretermScore_not_Diverges maternalAgeScore_not_Diverges bmiScore_not_Diverges)
qed

lemma generatePrediction_not_Diverges:
  assumes k: "\<forall>v \<in> set (validatedVisits e). keeps v"
  shows "fst (generatePrediction env e) \<noteq> Diverges"
proof (cases "validatedVisits e = []")
  case True
  then show ?thesis
    using getFallbackPrediction_no_data [of env] by (auto simp: gp_fst_empty)
next
  case ne: False
  let ?s = "array_sort compareGA (validatedVisits e)"
  let ?ga = "GESTATIONAL_AGE_WEEKS (last ?s)"
  show ?thesis
  proof (cases "num_le (Fin 40) (number_of ?ga)")
    case True
    then show ?thesis
      using k ne by (simp add: gp_fst_term getFallbackPrediction_at_term)
  next
    case False
    have "num_lt (Fin 0) (number_of ?ga)"
      using last_sorted_kept(2) [OF k ne] by (simp add: keeps_iff)
    then obtain x where x: "math_max (Fin 0) (num_sub (Fin 40) (number_of ?ga)) = Fin x"
      using weeks_finite by blast
    show ?thesis
      unfolding gp_fst_normal [OF k ne False] x
      by (intro and_then_not_Diverges calculateRiskScores_not_Diverges
          generateProgression_not_Diverges) simp
  qed
qed

lemma generatePrediction_outcome:
  assumes "PredictionEngine vs p = Returns e"
  shows "(\<exists>r. fst (generatePrediction env e) = Returns r)
       \<or> fst (generatePrediction env e) = Throws TypeError"
  using outcome_cases [OF generatePrediction_not_Diverges [OF engine_keeps [OF assms]]] .

subsection \<open>The fallback policy\<close>

text \<open>
  What generatePrediction does on an engine built by the constructor. On an empty
  validated visit set it returns the fixed fallback result with a progression of 28
  weekly entries per series (weeks 13 to 40, projected from a default gestational age of
  12). When the latest gestational age is at or past 40 weeks it returns the fixed
  fallback result with an empty progression object. In the other cases it returns or
  raises a \<^verbatim>\<open>TypeError\<close>; a result it returns is the full pipeline result, computed on the
  sorted visits, and it returns one on typed input.
\<close>

lemma fallback_policy:
  fixes env :: env and e :: engine
  assumes built: "PredictionEngine vs p = Returns e"
  defines "e' \<equiv> snd (generatePrediction env e)"
  defines "ga \<equiv> GESTATIONAL_AGE_WEEKS (last (validatedVisits e'))"
  defines "w \<equiv> math_max (Fin 0) (num_sub (Fin 40) (number_of ga))"
  shows "(validatedVisits e = [] \<longrightarrow>
            (\<exists>pg. fst (generatePrediction env e) = Returns (fixed_fallback env (Some pg))
                 \<and> weeks_of pg = replicate 6 (map (\<lambda>i. JNum (Fin (real i))) [13 ..< 41])))
       \<and> (validatedVisits e \<noteq> [] \<and> at_term (validatedVisits e) \<longrightarrow>
            fst (generatePrediction env e) = Returns (fixed_fallback env None))
       \<and> (validatedVisits e \<noteq> [] \<and> \<not> at_term (validatedVisits e) \<longrightarrow>
            (\<forall>r. fst (generatePrediction env e) = Returns r \<longrightarrow>
               (\<exists>rs pg. calculateRiskScores e' = Returns rs
                  \<and> generateProgression env e' ga w = Returns pg
                  \<and> r = pipeline_result env e' ga w rs pg))
            \<and> (well_typed e \<longrightarrow> returns (fst (generatePrediction env e)))
            \<and> (returns (fst (generatePrediction env e))
                 \<or> fst (generatePrediction env e) = Throws TypeError))"
proof (intro conjI impI allI)
  assume "validatedVisits e = []"
  then show "\<exists>pg. fst (generatePrediction env e) = Returns (fixed_fallback env (Some pg))
                 \<and> weeks_of pg = replicate 6 (map (\<lambda>i. JNum (Fin (real i))) [13 ..< 41])"
    using getFallbackPrediction_no_data [of env] by (simp add: gp_fst_empty)
next
  have k: "\<forall>v \<in> set (validatedVisits e). keeps v"
    using built by (rule engine_keeps)
  {
    assume a: "validatedVisits e \<noteq> [] \<and> at_term (validatedVisits e)"
    then show "fst (generatePrediction env e) = Returns (fixed_fallback env None)"
      using latest_at_term [OF k] k by (simp add: gp_fst_term getFallbackPrediction_at_term)
  next
    assume "well_typed e"
    then show "returns (fst (generatePrediction env e))"
      using generatePrediction_returns [OF k] by (simp add: returns_iff)
  next
    show "returns (fst (generatePrediction env e))
          \<or> fst (generatePrediction env e) = Throws TypeError"
      using outcome_cases [OF generatePrediction_not_Diverges [OF k]] by (simp add: returns_iff)
  next
    fix r
    assume a: "validatedVisits e \<noteq> [] \<and> \<not> at_term (validatedVisits e)"
      and r: "fst (generatePrediction env e) = Returns r"
    from a have ne: "validatedVisits e \<noteq> []"
      and nt: "\<not> num_le (Fin 40) (number_of (GESTATIONAL_AGE_WEEKS
                 (last (array_sort compareGA (validatedVisits e)))))"
      using latest_at_term [OF k] by simp_all
    have e': "e' = e\<lparr> validatedVisits := array_sort compareGA (validatedVisits e) \<rparr>"
      unfolding e'_def using k by (rule generatePrediction_snd)
    have ga: "ga = GESTATIONAL_AGE_WEEKS (last (array_sort compareGA (validatedVisits e)))"
      unfolding ga_def e' by simp
    from r show "\<exists>rs pg. calculateRiskScores e' = Returns rs
                  \<and> generateProgression env e' ga w = Returns pg
                  \<and> r = pipeline_result env e' ga w rs pg"
      unfolding gp_fst_normal [OF k ne nt] w_def ga [symmetric] e' [symmetric]
      by (auto simp: and_then_Returns)
  }
qed

lemma fallback_policy_samples:
  "(\<exists>pg. fst (generatePrediction env0 empty_engine) = Returns (fixed_fallback env0 (Some pg))
        \<and> weeks_of pg = replicate 6 (map (\<lambda>i. JNum (Fin (real i))) [13 ..< 41]))
   \<and> fst (generatePrediction env0 term_engine) = Returns (fixed_fallback env0 None)
   \<and> (\<exists>r. fst (generatePrediction env0 late_engine) = Returns r \<and> \<not> isFallback r)"
proof -
  have t: "validatedVisits term_engine \<noteq> []" "at_term (validatedVisits term_engine)"
    by (simp_all add: term_engine_def at_term_def visit_at_def num_le_def)
  have e: "validatedVisits empty_engine = []"
    by (simp add: empty_engine_def)
  from fallback_policy [OF empty_engine_built, of env0] e
  have 1: "\<exists>pg. fst (generatePrediction env0 empty_engine) = Returns (fixed_fallback env0 (Some pg))
        \<and> weeks_of pg = replicate 6 (map (\<lambda>i. JNum (Fin (real i))) [13 ..< 41])"
    by blast
  from fallback_policy [OF term_engine_built, of env0] t
  have 2: "fst (generatePrediction env0 term_engine) = Returns (fixed_fallback env0 None)"
    by blast
  from fallback_policy [OF late_engine_built, of env0] late_engine_facts
  obtain r where r: "fst (generatePrediction env0 late_engine) = Returns r"
    by (auto simp: returns_iff)
  with fallback_policy [OF late_engine_built, of env0] late_engine_facts
  have "\<not> isFallback r"
    by (auto simp: pipeline_result_def)
  with 1 2 r show ?thesis by blast
qed

subsection \<open>Inputs on which generatePrediction raises\<close>

lemma roundValue_Returns: "roundValue v d = Returns n \<Longrightarrow> \<exists>m. v = JNum m"
  by (cases v) (simp_all add: roundValue_def)

lemma js_add_JNum: "js_add pr a b = Returns (JNum n) \<Longrightarrow> \<not> stringy a \<and> \<not> stringy b"
  by (auto simp: js_add_def and_then_Returns split: if_splits)

lemma projectWeek_Returns:
  assumes "projectWeek env sw base i p = Returns p'"
  shows "\<not> stringy sw \<and> \<not> stringy (b_weight base)"
proof -
  from assms obtain wk w0 w f0 f
    where wk: "js_add (num_str env) sw (JNum (Fin (real i))) = Returns wk"
      and w0: "js_add (num_str env) (b_weight base) (JNum (Fin (real i * 0.35))) = Returns w0"
      and w: "roundValue w0 1 = Returns w"
      and f0: "js_add (num_str env) wk (JNum (Fin (rand env (4 * (i - 1) + 0) * 2 - 1))) = Returns f0"
      and f: "roundValue f0 1 = Returns f"
    unfolding projectWeek_def Let_def and_then_Returns by blast
  from w w0 have 1: "\<not> stringy (b_weight base)"
    using roundValue_Returns js_add_JNum by blast
  from f f0 have "\<not> stringy wk"
    using roundValue_Returns js_add_JNum by blast
  with wk have "\<not> stringy sw"
    by (auto simp: js_add_def and_then_Returns split: if_splits)
  with 1 show ?thesis by simp
qed

lemma projectWeek_throws:
  assumes "stringy sw \<or> stringy (b_weight base)"
  shows "projectWeek env sw base i p = Throws TypeError"
  using outcome_cases [OF projectWeek_not_Diverges [of env sw base i p]] assms
    projectWeek_Returns [of env sw base i p]
  by blast

lemma generateProgression_throws:
  assumes ne: "validatedVisits e \<noteq> []"
    and s: "stringy ga \<or> stringy (js_or (MATERNAL_WEIGHT (last (validatedVisits e))) (JNum (Fin 60)))"
    and x: "1 \<le> x"
  shows "generateProgression env e ga (Fin x) = Throws TypeError"
proof -
  have "1 \<le> nat \<lfloor>x\<rfloor>" using x by linarith
  then obtain n where n: "nat \<lfloor>x\<rfloor> = Suc n"
    by (cases "nat \<lfloor>x\<rfloor>") auto
  have "generateProgression env e ga (Fin x) \<noteq> Returns pg" for pg
    using ne s
    by (auto simp: generateProgression_def Let_def and_then_Returns generateProgressionData_def n
        projectWeek_throws)
  then show ?thesis
    using outcome_cases [OF generateProgression_not_Diverges [of env e ga x]] by blast
qed

lemma hasPretermHistory_throws:
  assumes "\<not> unprintable (get_prop (patient e) ''PARITY'')"
    and "num_lt (Fin 0) (number_of (get_prop (patient e) ''PARITY''))"
    and "get_prop (patient e) ''MEDICAL_HISTORY'' = JNum m"
  shows "hasPretermHistory e = Throws TypeError"
  using assms by (simp add: hasPretermHistory_def js_gt_Returns)

lemma and_then_raises:
  "m \<noteq> Diverges \<Longrightarrow> and_then m (\<lambda>a. Throws TypeError) = Throws TypeError"
  by (cases m) (auto intro: exn.exhaust)

lemma single_visit_normal:
  assumes vv: "validatedVisits e = [v]"
    and p: "\<not> unprintable (GESTATIONAL_AGE_WEEKS v)"
    and g: "number_of (GESTATIONAL_AGE_WEEKS v) = Fin 20"
  shows "fst (generatePrediction env e) =
     and_then (calculateRiskScores e) (\<lambda>rs.
       and_then (generateProgression env e (GESTATIONAL_AGE_WEEKS v) (Fin 20)) (\<lambda>pg.
         Returns (pipeline_result env e (GESTATIONAL_AGE_WEEKS v) (Fin 20) rs pg)))"
proof -
  have s: "sort_visits (validatedVisits e) = Returns [v]"
    by (simp add: vv sort_visits_single)
  have e: "e\<lparr> validatedVisits := [v] \<rparr> = e"
    using vv by simp
  have ne: "validatedVisits e \<noteq> []" using vv by simp
  have p': "\<not> unprintable (GESTATIONAL_AGE_WEEKS (last [v]))"
    using p by simp
  show ?thesis
    unfolding gp_fst_sorted [OF ne s p'] e
    by (simp add: g math_max_def num_sub_def num_le_def)
qed

text \<open>
  A single visit at week 20 on which the progression raises, or on which the risk
  scorer raises: the call raises.
\<close>

lemma single_visit_raises:
  assumes vv: "validatedVisits e = [v]"
    and p: "\<not> unprintable (GESTATIONAL_AGE_WEEKS v)"
    and g: "number_of (GESTATIONAL_AGE_WEEKS v) = Fin 20"
    and t: "calculateRiskScores e = Throws TypeError
            \<or> generateProgression env e (GESTATIONAL_AGE_WEEKS v) (Fin 20) = Throws TypeError"
  shows "fst (generatePrediction env e) = Throws TypeError"
proof (cases "calculateRiskScores e = Throws TypeError")
  case True
  then show ?thesis
    unfolding single_visit_normal [OF vv p g] by simp
next
  case False
  with t have "generateProgression env e (GESTATIONAL_AGE_WEEKS v) (Fin 20) = Throws TypeError"
    by simp
  then show ?thesis
    unfolding single_visit_normal [OF vv p g]
    by (simp add: and_then_raises [OF calculateRiskScores_not_Diverges])
qed

lemma string_ga_engine_built:
  "PredictionEngine string_ga_input (JObj []) = Returns string_ga_engine"
proof -
  have s20: "string_to_number ''20'' = Fin 20" by code_simp
  show ?thesis
    by (simp add: PredictionEngine_def string_ga_input_def string_ga_engine_def
        validateVisits_def js_or_def nullish_def normalize_def keep_visit_def js_gt_def
        to_number_def visit_at_def string_ga_visit_def s20)
qed

lemma string_ga_engine_raises:
  "fst (generatePrediction env string_ga_engine) = Throws TypeError"
proof -
  have s20: "string_to_number ''20'' = Fin 20" by code_simp
  have "generateProgression env string_ga_engine (JStr ''20'') (Fin 20) = Throws TypeError"
    by (rule generateProgression_throws) (simp_all add: string_ga_engine_def)
  then show ?thesis
    by (intro single_visit_raises [where v = string_ga_visit])
       (simp_all add: string_ga_engine_def string_ga_visit_def s20)
qed

lemma object_hb_engine_built:
  "PredictionEngine object_hb_input (JObj []) = Returns object_hb_engine"
  by (simp add: PredictionEngine_def object_hb_input_def object_hb_engine_def
      validateVisits_def js_or_def nullish_def normalize_def keep_visit_def js_gt_def
      to_number_def visit_at_def)

lemma object_hb_engine_raises:
  "fst (generatePrediction env object_hb_engine) = Throws TypeError"
proof -
  have "calculateRiskScores object_hb_engine = Throws TypeError"
    by (simp add: calculateRiskScores_def object_hb_engine_def anemiaScore_def js_lt_def
        to_number_def visit_at_def Let_def)
  then show ?thesis
    by (intro single_visit_raises
          [where v = "(visit_at 20)\<lparr> HEMOGLOBIN_LEVEL := JObj [(''toString'', JNum (Fin 1))] \<rparr>"])
       (simp_all add: object_hb_engine_def visit_at_def)
qed

text \<open>
  Claim C2. The claim ends: in all other cases (a validated visit set that is not empty
  and a latest gestational age below 40 weeks) generatePrediction returns a full
  pipeline result. It does not. For the input of one visit whose gestational age is the
  string "20", the constructor keeps the visit, the latest gestational age converts to
  20, and the call raises a \<^verbatim>\<open>TypeError\<close> under every runtime: the week of the projection
  is the string "201", which has no \<^verbatim>\<open>toFixed\<close>. For the input of one visit at week 20
  whose hemoglobin level is the object \<^verbatim>\<open>{"toString": 1}\<close> the call raises too, in the
  comparison of the hemoglobin level with 10.
\<close>

theorem generatePrediction_no_result:
  "PredictionEngine string_ga_input (JObj []) = Returns string_ga_engine
   \<and> validatedVisits string_ga_engine \<noteq> []
   \<and> \<not> at_term (validatedVisits string_ga_engine)
   \<and> fst (generatePrediction env string_ga_engine) = Throws TypeError
   \<and> PredictionEngine object_hb_input (JObj []) = Returns object_hb_engine
   \<and> validatedVisits object_hb_engine \<noteq> []
   \<and> \<not> at_term (validatedVisits object_hb_engine)
   \<and> fst (generatePrediction env object_hb_engine) = Throws TypeError"
proof -
  have s20: "string_to_number ''20'' = Fin 20" by code_simp
  have "validatedVisits string_ga_engine \<noteq> []" "\<not> at_term (validatedVisits string_ga_engine)"
    by (simp_all add: string_ga_engine_def string_ga_visit_def at_term_def s20 num_le_def)
  moreover have "validatedVisits object_hb_engine \<noteq> []"
    "\<not> at_term (validatedVisits object_hb_engine)"
    by (simp_all add: object_hb_engine_def visit_at_def at_term_def num_le_def)
  ultimately show ?thesis
    using string_ga_engine_built string_ga_engine_raises [of env]
      object_hb_engine_built object_hb_engine_raises [of env]
    by blast
qed

text \<open>
  Claim C1 says that generatePrediction never raises. It raises a TypeError, under every
  runtime, for a patient with parity 1 and a medical history that is the number 5 (the
  optional chaining of \<^verbatim>\<open>hasPretermHistory\<close> guards \<^verbatim>\<open>null\<close> and \<^verbatim>\<open>undefined\<close> only), for a
  visit whose gestational age is the string "20" (the week of the projection becomes the
  string "201", which has no \<^verbatim>\<open>toFixed\<close>), and for a visit whose maternal weight is the
  string "65".
\<close>

theorem generatePrediction_raises:
  "predict env (JArr [JObj [(''GESTATIONAL_AGE_WEEKS'', JNum (Fin 20))]])
      (JObj [(''PARITY'', JNum (Fin 1)), (''MEDICAL_HISTORY'', JNum (Fin 5))]) = Throws TypeError
   \<and> predict env (JArr [JObj [(''GESTATIONAL_AGE_WEEKS'', JStr ''20'')]]) (JObj []) = Throws TypeError
   \<and> predict env (JArr [JObj [(''GESTATIONAL_AGE_WEEKS'', JNum (Fin 20)),
                                (''MATERNAL_WEIGHT'', JStr ''65'')]]) (JObj []) = Throws TypeError"
proof (intro conjI)
  let ?p = "JObj [(''PARITY'', JNum (Fin 1)), (''MEDICAL_HISTORY'', JNum (Fin 5))]"
  let ?a = "\<lparr> visits = JArr [JObj [(''GESTATIONAL_AGE_WEEKS'', JNum (Fin 20))]], patient = ?p,
              validatedVisits = [visit_at 20] \<rparr>"
  have a: "PredictionEngine (JArr [JObj [(''GESTATIONAL_AGE_WEEKS'', JNum (Fin 20))]]) ?p = Returns ?a"
    by (simp add: PredictionEngine_def validateVisits_def js_or_def nullish_def normalize_def
        keep_visit_def js_gt_def to_number_def visit_at_def)
  have "hasPretermHistory ?a = Throws TypeError"
    by (rule hasPretermHistory_throws [where m = "Fin 5"]) simp_all
  then have "calculateRiskScores ?a = Throws TypeError"
    by (simp add: calculateRiskScores_def Let_def pretermScore_def visit_at_def
        hypertensionScore_def anemiaScore_def growthScore_def js_lt_def to_number_def)
  then have "fst (generatePrediction env ?a) = Throws TypeError"
    by (intro single_visit_raises [where v = "visit_at 20"]) (simp_all add: visit_at_def)
  then show "predict env (JArr [JObj [(''GESTATIONAL_AGE_WEEKS'', JNum (Fin 20))]]) ?p = Throws TypeError"
    by (simp add: predict_def a)
next
  show "predict env (JArr [JObj [(''GESTATIONAL_AGE_WEEKS'', JStr ''20'')]]) (JObj []) = Throws TypeError"
    using string_ga_engine_built string_ga_engine_raises [of env]
    by (simp add: predict_def string_ga_input_def)
next
  let ?in = "JArr [JObj [(''GESTATIONAL_AGE_WEEKS'', JNum (Fin 20)), (''MATERNAL_WEIGHT'', JStr ''65'')]]"
  let ?c = "\<lparr> visits = ?in, patient = JObj [], validatedVisits = [string_weight_visit] \<rparr>"
  have c: "PredictionEngine ?in (JObj []) = Returns ?c"
    by (simp add: PredictionEngine_def validateVisits_def js_or_def nullish_def normalize_def
        keep_visit_def js_gt_def to_number_def visit_at_def string_weight_visit_def)
  have "generateProgression env ?c (JNum (Fin 20)) (Fin 20) = Throws TypeError"
    by (rule generateProgression_throws) (simp_all add: string_weight_visit_def js_or_def)
  then have "fst (generatePrediction env ?c) = Throws TypeError"
    by (intro single_visit_raises [where v = string_weight_visit])
       (simp_all add: string_weight_visit_def visit_at_def)
  then show "predict env ?in (JObj []) = Throws TypeError"
    by (simp add: predict_def c)
qed

subsection \<open>The distributions\<close>

lemma roundProbability_range: "0 \<le> x \<Longrightarrow> x \<le> 1 \<Longrightarrow> 0 \<le> roundProbability x \<and> roundProbability x \<le> 1"
proof -
  assume a: "0 \<le> x" "x \<le> 1"
  have "0 \<le> \<lfloor>x * 100 + 1 / 2\<rfloor>" using a by simp
  moreover have "\<lfloor>x * 100 + 1 / 2\<rfloor> \<le> 100" using a by (simp add: floor_le_iff)
  ultimately have "0 \<le> real_of_int \<lfloor>x * 100 + 1 / 2\<rfloor> \<and> real_of_int \<lfloor>x * 100 + 1 / 2\<rfloor> \<le> 100"
    by simp
  then show ?thesis
    by (simp add: roundProbability_def round_half_up_def)
qed

lemma roundProbability_close: "\<bar>roundProbability x - x\<bar> \<le> 1 / 200"
proof -
  define k where "k = \<lfloor>x * 100 + 1 / 2\<rfloor>"
  have "real_of_int k \<le> x * 100 + 1 / 2" and "x * 100 + 1 / 2 < real_of_int k + 1"
    unfolding k_def by linarith+
  then have "\<bar>real_of_int k / 100 - x\<bar> \<le> 1 / 200"
    by linarith
  then show ?thesis
    by (simp add: roundProbability_def round_half_up_def k_def)
qed

lemma anemiaScore_range: "anemiaScore v = Returns a \<Longrightarrow> 0 \<le> a \<and> a \<le> 1"
  by (auto simp: anemiaScore_def Let_def and_then_Returns split: if_splits)

lemma growthScore_range: "growthScore v = Returns g \<Longrightarrow> 0 \<le> g \<and> g \<le> 1"
  by (auto simp: growthScore_def Let_def and_then_Returns split: if_splits)

lemma maternalAgeScore_range: "maternalAgeScore e = Returns m \<Longrightarrow> 0 \<le> m \<and> m \<le> 1"
  by (auto simp: maternalAgeScore_def Let_def and_then_Returns split: if_splits)

lemma bmiScore_range: "bmiScore e = Returns b \<Longrightarrow> 0 \<le> b \<and> b \<le> 1"
  by (auto simp: bmiScore_def Let_def and_then_Returns split: if_splits)

lemma hypertensionScore_range: "hypertensionScore v = Returns h \<Longrightarrow> 0 \<le> h \<and> h \<le> 1"
  by (auto simp: hypertensionScore_def and_then_Returns split: if_splits)

lemma pretermScore_range: "pretermScore e v = Returns p \<Longrightarrow> 0 \<le> p \<and> p \<le> 1"
  by (auto simp: pretermScore_def and_then_Returns Let_def split: if_splits)

lemma risk_scores_range:
  assumes "calculateRiskScores e = Returns rs"
  shows "0 \<le> anemia rs \<and> anemia rs \<le> 1 \<and> 0 \<le> hypertension rs \<and> hypertension rs \<le> 1
       \<and> 0 \<le> growthRestriction rs \<and> growthRestriction rs \<le> 1
       \<and> 0 \<le> pretermRisk rs \<and> pretermRisk rs \<le> 1
       \<and> 0 \<le> maternalAgeRisk rs \<and> maternalAgeRisk rs \<le> 1
       \<and> 0 \<le> bmiRisk rs \<and> bmiRisk rs \<le> 1"
proof -
  let ?v = "last (validatedVisits e)"
  from assms obtain a h g p m b where a: "anemiaScore ?v = Returns a"
    and h: "hypertensionScore ?v = Returns h"
    and g: "growthScore ?v = Returns g"
    and p: "pretermScore e ?v = Returns p"
    and m: "maternalAgeScore e = Returns m"
    and b: "bmiScore e = Returns b"
    and rs: "rs = \<lparr> anemia = a, hypertension = h, growthRestriction = g,
                    pretermRisk = p, maternalAgeRisk = m, bmiRisk = b \<rparr>"
    by (auto simp: calculateRiskScores_def and_then_Returns Let_def split: if_splits)
  show ?thesis
    unfolding rs
    using anemiaScore_range [OF a] growthScore_range [OF g] maternalAgeScore_range [OF m]
      bmiScore_range [OF b] hypertensionScore_range [OF h] pretermScore_range [OF p]
    by simp
qed

lemma delivery_type_ok:
  assumes "0 \<le> anemia rs \<and> anemia rs \<le> 1 \<and> 0 \<le> hypertension rs \<and> hypertension rs \<le> 1
       \<and> 0 \<le> growthRestriction rs \<and> growthRestriction rs \<le> 1
       \<and> 0 \<le> pretermRisk rs \<and> pretermRisk rs \<le> 1
       \<and> 0 \<le> maternalAgeRisk rs \<and> maternalAgeRisk rs \<le> 1
       \<and> 0 \<le> bmiRisk rs \<and> bmiRisk rs \<le> 1"
  shows "distribution_ok [FullTerm (calculateDeliveryTypeProbabilities rs),
                          Premature (calculateDeliveryTypeProbabilities rs),
                          MortalityRisk (calculateDeliveryTypeProbabilities rs)]"
proof -
  define t where "t = foldl (+) 0 (map snd (entries rs)) / real (length (entries rs))"
  define f where "f = max 0.4 (0.80 - t * 0.3)"
  define p where "p = min 0.4 (0.15 + t * 0.2)"
  define m where "m = min 0.2 (0.05 + t * 0.1)"
  define S where "S = f + p + m"
  have t: "0 \<le> t" "t \<le> 1"
    using assms by (simp_all add: t_def entries_def)
  have f: "0.4 \<le> f" and p: "0.15 \<le> p" and m: "0.05 \<le> m"
    using t by (simp_all add: f_def p_def m_def)
  have S: "0 < S" using f p m by (simp add: S_def)
  have r: "0 \<le> f / S" "f / S \<le> 1" "0 \<le> p / S" "p / S \<le> 1" "0 \<le> m / S" "m / S \<le> 1"
    using f p m S by (simp_all add: S_def)
  have one: "f / S + p / S + m / S = 1"
    using S by (simp add: S_def add_divide_distrib [symmetric])
  have dt: "calculateDeliveryTypeProbabilities rs =
      \<lparr> FullTerm = roundProbability (f / S), Premature = roundProbability (p / S),
        MortalityRisk = roundProbability (m / S) \<rparr>"
    by (simp add: calculateDeliveryTypeProbabilities_def Let_def t_def f_def p_def m_def S_def)
  have c: "\<bar>roundProbability (f / S) - f / S\<bar> \<le> 1 / 200"
    "\<bar>roundProbability (p / S) - p / S\<bar> \<le> 1 / 200"
    "\<bar>roundProbability (m / S) - m / S\<bar> \<le> 1 / 200"
    by (rule roundProbability_close)+
  have sum: "\<bar>roundProbability (f / S) + roundProbability (p / S) + roundProbability (m / S) - 1\<bar> \<le> 2 / 100"
    using c one by linarith
  show ?thesis
    unfolding dt distribution_ok_def
    using roundProbability_range [OF r(1,2)] roundProbability_range [OF r(3,4)]
      roundProbability_range [OF r(5,6)] sum
    by (simp add: add.assoc)
qed

lemma delivery_mode_ok:
  assumes "0 \<le> hypertension rs" "0 \<le> growthRestriction rs" "0 \<le> bmiRisk rs"
  shows "distribution_ok [Normal (calculateDeliveryModeProbabilities e rs),
                          CSection (calculateDeliveryModeProbabilities e rs)]"
proof -
  define c where "c = min 0.7
            (hypertension rs * 0.4 + growthRestriction rs * 0.3 + bmiRisk rs * 0.2 +
             (if get_prop (patient e) ''PARITY'' = JNum (Fin 0)
                 \<or> get_prop (patient e) ''PARITY'' = JStr ''0'' then 0.1 else 0))"
  have c: "0 \<le> c" "c \<le> 1"
    using assms by (auto simp: c_def min_def)
  have dm: "calculateDeliveryModeProbabilities e rs =
      \<lparr> Normal = roundProbability (1 - c), CSection = roundProbability c \<rparr>"
    by (simp add: calculateDeliveryModeProbabilities_def Let_def c_def)
  have "\<bar>roundProbability (1 - c) - (1 - c)\<bar> \<le> 1 / 200" "\<bar>roundProbability c - c\<bar> \<le> 1 / 200"
    by (rule roundProbability_close)+
  then have sum: "\<bar>roundProbability (1 - c) + roundProbability c - 1\<bar> \<le> 2 / 100"
    by linarith
  show ?thesis
    unfolding dm distribution_ok_def
    using roundProbability_range [of "1 - c"] roundProbability_range [of c] c sum
    by simp
qed

lemma fixed_fallback_distributions:
  "distribution_ok [FullTerm (deliveryType (fixed_fallback env pg)),
                    Premature (deliveryType (fixed_fallback env pg)),
                    MortalityRisk (deliveryType (fixed_fallback env pg))]
   \<and> distribution_ok [Normal (deliveryMode (fixed_fallback env pg)),
                       CSection (deliveryMode (fixed_fallback env pg))]"
  by (simp add: fixed_fallback_def distribution_ok_def)

lemma returned_distributions:
  assumes "fst (generatePrediction env e) = Returns r"
  shows "distribution_ok [FullTerm (deliveryType r), Premature (deliveryType r),
                          MortalityRisk (deliveryType r)]
       \<and> distribution_ok [Normal (deliveryMode r), CSection (deliveryMode r)]"
  using generatePrediction_Returns [OF assms]
proof
  assume "\<exists>b. getFallbackPrediction env b = Returns r"
  then obtain pg where "r = fixed_fallback env pg"
    using getFallbackPrediction_Returns by blast
  then show ?thesis using fixed_fallback_distributions by simp
next
  assume "\<exists>e' rs. calculateRiskScores e' = Returns rs
             \<and> deliveryType r = calculateDeliveryTypeProbabilities rs
             \<and> deliveryMode r = calculateDeliveryModeProbabilities e' rs"
  then obtain e' rs where rs: "calculateRiskScores e' = Returns rs"
    and dt: "deliveryType r = calculateDeliveryTypeProbabilities rs"
    and dm: "deliveryMode r = calculateDeliveryModeProbabilities e' rs"
    by blast
  note rg = risk_scores_range [OF rs]
  show ?thesis
    unfolding dt dm using delivery_type_ok [OF rg] delivery_mode_ok [of rs e'] rg by blast
qed

text \<open>
  Claim C3. For every validated visit set and patient record (every state of the
  engine) and every runtime, the delivery-type distribution of a result returned by
  generatePrediction has each of its three probabilities in \<open>[0, 1]\<close> and their sum
  within 0.02 of 1, and the delivery-mode distribution has each of its two probabilities
  in \<open>[0, 1]\<close> and their sum within 0.02 of 1.
\<close>

theorem distributions_normalized:
  "\<forall>r. fst (generatePrediction env e) = Returns r \<longrightarrow>
       distribution_ok [FullTerm (deliveryType r), Premature (deliveryType r),
                        MortalityRisk (deliveryType r)]
       \<and> distribution_ok [Normal (deliveryMode r), CSection (deliveryMode r)]"
  using returned_distributions by blast

theorem distributions_normalized_witness:
  "\<exists>r. fst (generatePrediction env0 late_engine) = Returns r
      \<and> distribution_ok [FullTerm (deliveryType r), Premature (deliveryType r),
                          MortalityRisk (deliveryType r)]
      \<and> distribution_ok [Normal (deliveryMode r), CSection (deliveryMode r)]"
proof -
  obtain r where "fst (generatePrediction env0 late_engine) = Returns r"
    using generatePrediction_returns [OF engine_keeps [OF late_engine_built] late_engine_facts(3)]
    by blast
  with distributions_normalized [of env0 late_engine] show ?thesis
    by blast
qed

end
